theory Spec2Isabelle
  imports Complex_Main
begin

section \<open>ECMAScript values as the worker sees them\<close>

text \<open>
  The worker (\<^verbatim>\<open>src/index.ts\<close>) receives a request body, parses it with
  \<^verbatim>\<open>JSON.parse\<close> and probes the result with optional chaining, \<^verbatim>\<open>||\<close>,
  \<^verbatim>\<open>Number(...)\<close>, \<^verbatim>\<open>String(...)\<close> and \<^verbatim>\<open>.toUpperCase()\<close>.  The model keeps
  that dynamic typing: a payload is a value of type \<open>json\<close>, and every operation of
  the language that the source applies to it is a function of this section.

  Numbers.  A Number is a double: a finite value, an infinity or NaN.  The model
  carries the exact rational value of a finite double and rounds the result of every
  multiplication and subtraction to the nearest double, a tie going to the even
  mantissa and an overflow to an infinity, as IEEE 754 prescribes.  NaN and the
  infinities are kept, because the guards of the source (\<^verbatim>\<open>Number.isInteger\<close>,
  \<^verbatim>\<open><\<close>, \<^verbatim>\<open>>\<close>, \<^verbatim>\<open>||\<close>) treat them specially.  Negative zero is identified with
  zero (the source never divides by it).
\<close>

datatype jsnum = Fin rat | PInf | NInf | NaN

text \<open>
  Rounding to the nearest double.  \<open>bit_length n\<close> is the number of binary digits of
  a positive integer, \<open>ilog2 a\<close> is \<open>\<lfloor>log\<^sub>2 a\<rfloor>\<close> for a positive rational and \<open>pow2 k\<close>
  is \<open>2\<^sup>k\<close>.  A double has a mantissa of 53 bits, so a value of binary exponent \<open>e\<close>
  is rounded to a multiple of \<open>2\<^bsup>e - 52\<^esup>\<close>, and never finer than the subnormal
  step \<open>2\<^bsup>-1074\<^esup>\<close>; a result of \<open>2\<^bsup>1024\<^esup>\<close> or more is an infinity.
\<close>

function bit_length :: "int \<Rightarrow> int" where
  "bit_length n = (if n \<le> 0 then 0 else 1 + bit_length (n div 2))"
  by pat_completeness auto
termination
  by (relation "measure nat") auto

declare bit_length.simps [simp del]

definition ilog2 :: "rat \<Rightarrow> int" where
  "ilog2 a =
     (if 1 \<le> a then bit_length \<lfloor>a\<rfloor> - 1
      else - bit_length (- \<lfloor>- (1 / a)\<rfloor> - 1))"

definition pow2 :: "int \<Rightarrow> rat" where
  "pow2 k = (if 0 \<le> k then 2 ^ nat k else 1 / 2 ^ nat (- k))"

definition round_half_even :: "rat \<Rightarrow> int" where
  "round_half_even m =
     (if m - of_int \<lfloor>m\<rfloor> < 1 / 2 then \<lfloor>m\<rfloor>
      else if 1 / 2 < m - of_int \<lfloor>m\<rfloor> then \<lfloor>m\<rfloor> + 1
      else if even \<lfloor>m\<rfloor> then \<lfloor>m\<rfloor> else \<lfloor>m\<rfloor> + 1)"

definition to_double :: "rat \<Rightarrow> jsnum" where
  "to_double r =
     (if r = 0 then Fin 0
      else
        let k = max (ilog2 \<bar>r\<bar> - 52) (- 1074);
            v = of_int (round_half_even (\<bar>r\<bar> / pow2 k)) * pow2 k
        in if 2 ^ 1024 \<le> v then (if 0 < r then PInf else NInf)
           else Fin (if 0 < r then v else - v))"

text \<open>
  A value that is a double: rounding leaves it as it is.  The values that
  \<^verbatim>\<open>JSON.parse\<close> and the operations below produce are doubles.
\<close>

definition is_double :: "jsnum \<Rightarrow> bool" where
  "is_double x = (case x of Fin r \<Rightarrow> to_double r = Fin r | _ \<Rightarrow> True)"

fun js_sgn :: "jsnum \<Rightarrow> int" where
  "js_sgn (Fin r) = (if r = 0 then 0 else if 0 < r then 1 else - 1)"
| "js_sgn PInf = 1"
| "js_sgn NInf = - 1"
| "js_sgn NaN = 0"

text \<open>\<^verbatim>\<open>x * y\<close>\<close>

fun js_mul :: "jsnum \<Rightarrow> jsnum \<Rightarrow> jsnum" where
  "js_mul NaN y = NaN"
| "js_mul x NaN = NaN"
| "js_mul (Fin a) (Fin b) = to_double (a * b)"
| "js_mul x y =
     (if js_sgn x * js_sgn y = 0 then NaN
      else if 0 < js_sgn x * js_sgn y then PInf else NInf)"

text \<open>\<^verbatim>\<open>x - y\<close>\<close>

fun js_sub :: "jsnum \<Rightarrow> jsnum \<Rightarrow> jsnum" where
  "js_sub NaN y = NaN"
| "js_sub x NaN = NaN"
| "js_sub (Fin a) (Fin b) = to_double (a - b)"
| "js_sub PInf PInf = NaN"
| "js_sub NInf NInf = NaN"
| "js_sub PInf y = PInf"
| "js_sub NInf y = NInf"
| "js_sub x PInf = NInf"
| "js_sub x NInf = PInf"

text \<open>\<^verbatim>\<open>Math.abs(x)\<close>\<close>

fun js_abs :: "jsnum \<Rightarrow> jsnum" where
  "js_abs (Fin r) = Fin \<bar>r\<bar>"
| "js_abs PInf = PInf"
| "js_abs NInf = PInf"
| "js_abs NaN = NaN"

text \<open>\<^verbatim>\<open>x < y\<close>; every comparison with NaN is false.\<close>

fun js_lt :: "jsnum \<Rightarrow> jsnum \<Rightarrow> bool" where
  "js_lt NaN y = False"
| "js_lt x NaN = False"
| "js_lt (Fin a) (Fin b) = (a < b)"
| "js_lt PInf y = False"
| "js_lt x NInf = False"
| "js_lt x PInf = True"
| "js_lt NInf y = True"

text \<open>\<^verbatim>\<open>x > y\<close> and \<^verbatim>\<open>x <= y\<close>\<close>

definition js_gt :: "jsnum \<Rightarrow> jsnum \<Rightarrow> bool" where
  "js_gt x y = js_lt y x"

definition js_le :: "jsnum \<Rightarrow> jsnum \<Rightarrow> bool" where
  "js_le x y = (x \<noteq> NaN \<and> y \<noteq> NaN \<and> (x = y \<or> js_lt x y))"

text \<open>\<^verbatim>\<open>Math.max(x, y)\<close>: NaN when either argument is NaN.\<close>

definition js_max :: "jsnum \<Rightarrow> jsnum \<Rightarrow> jsnum" where
  "js_max x y = (if x = NaN \<or> y = NaN then NaN else if js_lt x y then y else x)"

text \<open>
  \<^verbatim>\<open>Math.round(x)\<close>: the nearest integer, a tie going towards \<open>+\<infinity>\<close>.  For a
  double \<open>x\<close> that integer is a double again, so nothing is rounded twice.
\<close>

fun js_round :: "jsnum \<Rightarrow> jsnum" where
  "js_round (Fin r) = Fin (of_int \<lfloor>r + 1 / 2\<rfloor>)"
| "js_round x = x"

text \<open>\<^verbatim>\<open>Number.isInteger(x)\<close>\<close>

fun is_integer :: "jsnum \<Rightarrow> bool" where
  "is_integer (Fin r) = (of_int \<lfloor>r\<rfloor> = r)"
| "is_integer x = False"

text \<open>Truthiness of a Number: \<open>0\<close> and NaN are falsy.\<close>

fun num_truthy :: "jsnum \<Rightarrow> bool" where
  "num_truthy (Fin r) = (r \<noteq> 0)"
| "num_truthy NaN = False"
| "num_truthy x = True"

text \<open>\<^verbatim>\<open>x || y\<close> on Numbers.\<close>

definition num_or :: "jsnum \<Rightarrow> jsnum \<Rightarrow> jsnum" where
  "num_or x y = (if num_truthy x then x else y)"

text \<open>
  Values.  \<open>JUndef\<close> is \<^verbatim>\<open>undefined\<close>, the result of reading a property that is not
  there; the other constructors are what \<^verbatim>\<open>JSON.parse\<close> produces.  An object is the
  list of its own properties.
\<close>

datatype json =
    JUndef
  | JNull
  | JBool bool
  | JNum jsnum
  | JStr string
  | JArr "json list"
  | JObj "(string \<times> json) list"

text \<open>
  \<^verbatim>\<open>v?.k\<close>.  Only objects carry the property names the source reads (none of them is
  inherited from a prototype of Object, Array, String, Number or Boolean), so the
  read yields \<^verbatim>\<open>undefined\<close> on everything else, \<^verbatim>\<open>null\<close> and \<^verbatim>\<open>undefined\<close> included.
\<close>

fun get :: "json \<Rightarrow> string \<Rightarrow> json" where
  "get (JObj kvs) k = (case map_of kvs k of Some v \<Rightarrow> v | None \<Rightarrow> JUndef)"
| "get v k = JUndef"

fun truthy :: "json \<Rightarrow> bool" where
  "truthy JUndef = False"
| "truthy JNull = False"
| "truthy (JBool b) = b"
| "truthy (JNum n) = num_truthy n"
| "truthy (JStr s) = (s \<noteq> [])"
| "truthy (JArr xs) = True"
| "truthy (JObj kvs) = True"

text \<open>\<^verbatim>\<open>a || b\<close> and \<^verbatim>\<open>a && b\<close>\<close>

definition js_or :: "json \<Rightarrow> json \<Rightarrow> json" where
  "js_or a b = (if truthy a then a else b)"

definition js_and :: "json \<Rightarrow> json \<Rightarrow> json" where
  "js_and a b = (if truthy a then b else a)"

text \<open>\<^verbatim>\<open>Array.isArray(v)\<close> and \<^verbatim>\<open>v.length\<close> of an array.\<close>

fun is_array :: "json \<Rightarrow> bool" where
  "is_array (JArr xs) = True"
| "is_array v = False"

fun array_length :: "json \<Rightarrow> nat" where
  "array_length (JArr xs) = length xs"
| "array_length v = 0"

subsection \<open>Exceptions and the host\<close>

text \<open>
  The exceptions the source can raise.  A function of the source that can throw
  returns \<open>exn + 'a\<close>, and \<open>bindE\<close> sequences two such computations as statement
  order does.
\<close>

datatype exn = TypeError | RangeError

definition bindE :: "'e + 'a \<Rightarrow> ('a \<Rightarrow> 'e + 'b) \<Rightarrow> 'e + 'b" where
  "bindE m f = (case m of Inl e \<Rightarrow> Inl e | Inr a \<Rightarrow> f a)"

fun mapE :: "('a \<Rightarrow> 'e + 'b) \<Rightarrow> 'a list \<Rightarrow> 'e + 'b list" where
  "mapE f [] = Inr []"
| "mapE f (x # xs) = bindE (f x) (\<lambda>y. bindE (mapE f xs) (\<lambda>ys. Inr (y # ys)))"

text \<open>
  What the runtime supplies and the repository does not define: reading a string as
  a Number, printing a Number, upper-casing, the clock, \<^verbatim>\<open>Date.parse\<close>, the ISO
  rendering of an instant, and the random identifier of \<^verbatim>\<open>cryptoRandomId\<close>.  Every
  function of the source takes the host as its first argument, and every theorem
  below holds for every host.
\<close>

record host =
  str_to_num :: "string \<Rightarrow> jsnum"
  num_to_str :: "jsnum \<Rightarrow> string"
  to_upper :: "string \<Rightarrow> string"
  now_ms :: int
  now_iso :: string
  date_parse :: "string \<Rightarrow> int option"
  iso_of_ms :: "int \<Rightarrow> string"
  random_id :: string

text \<open>
  \<^verbatim>\<open>String(v)\<close>.  An array is joined with commas, \<^verbatim>\<open>null\<close> elements printing as
  the empty string.  A parsed object prints as \<^verbatim>\<open>[object Object]\<close>, unless it has an
  own property \<^verbatim>\<open>toString\<close>: that property is data, not a function, and the
  conversion to a primitive throws TypeError.
\<close>

fun to_string :: "host \<Rightarrow> json \<Rightarrow> exn + string"
  and join_elems :: "host \<Rightarrow> json list \<Rightarrow> exn + string" where
  "to_string h JUndef = Inr ''undefined''"
| "to_string h JNull = Inr ''null''"
| "to_string h (JBool b) = Inr (if b then ''true'' else ''false'')"
| "to_string h (JNum n) = Inr (num_to_str h n)"
| "to_string h (JStr s) = Inr s"
| "to_string h (JArr xs) = join_elems h xs"
| "to_string h (JObj kvs) =
     (if map_of kvs ''toString'' \<noteq> None then Inl TypeError else Inr ''[object Object]'')"
| "join_elems h [] = Inr []"
| "join_elems h (x # xs) =
     bindE (if x = JNull \<or> x = JUndef then Inr [] else to_string h x) (\<lambda>s.
       if xs = [] then Inr s
       else bindE (join_elems h xs) (\<lambda>t. Inr (s @ '','' @ t)))"

text \<open>\<^verbatim>\<open>Number(v)\<close>\<close>

fun to_number :: "host \<Rightarrow> json \<Rightarrow> exn + jsnum" where
  "to_number h JUndef = Inr NaN"
| "to_number h JNull = Inr (Fin 0)"
| "to_number h (JBool b) = Inr (Fin (if b then 1 else 0))"
| "to_number h (JNum n) = Inr n"
| "to_number h (JStr s) = Inr (str_to_num h s)"
| "to_number h (JArr xs) = bindE (to_string h (JArr xs)) (\<lambda>s. Inr (str_to_num h s))"
| "to_number h (JObj kvs) =
     (if map_of kvs ''toString'' \<noteq> None then Inl TypeError else Inr NaN)"

text \<open>
  \<^verbatim>\<open>v.toUpperCase()\<close>: only a string has the method; on any other value the call
  is a TypeError (\<^verbatim>\<open>v.toUpperCase is not a function\<close>).
\<close>

fun toUpperCase :: "host \<Rightarrow> json \<Rightarrow> exn + string" where
  "toUpperCase h (JStr s) = Inr (to_upper h s)"
| "toUpperCase h v = Inl TypeError"

text \<open>
  \<^verbatim>\<open>v.k\<close> without optional chaining: reading a property of \<^verbatim>\<open>null\<close> or
  \<^verbatim>\<open>undefined\<close> throws.
\<close>

definition get_strict :: "json \<Rightarrow> string \<Rightarrow> exn + json" where
  "get_strict v k = (if v = JNull \<or> v = JUndef then Inl TypeError else Inr (get v k))"

text \<open>
  Instants.  \<open>time_clip\<close> is the time value of \<^verbatim>\<open>new Date(n)\<close> for a Number
  \<open>n\<close>: invalid (\<open>None\<close>) for NaN, an infinity or a magnitude above
  \<open>8.64e15\<close> ms, else \<open>n\<close> truncated towards zero.  \<open>new_date\<close> is
  \<^verbatim>\<open>new Date(v)\<close>: a string is parsed, an array or object is first converted to
  its string, anything else is converted to a Number.  \<open>toISOString\<close> throws
  RangeError on an invalid date.
\<close>

fun time_clip :: "jsnum \<Rightarrow> int option" where
  "time_clip (Fin r) =
     (if \<bar>r\<bar> \<le> 8640000000000000 then Some (if 0 \<le> r then \<lfloor>r\<rfloor> else \<lceil>r\<rceil>) else None)"
| "time_clip x = None"

fun new_date :: "host \<Rightarrow> json \<Rightarrow> exn + int option" where
  "new_date h (JStr s) = Inr (date_parse h s)"
| "new_date h (JArr xs) = bindE (to_string h (JArr xs)) (\<lambda>s. Inr (date_parse h s))"
| "new_date h (JObj kvs) = bindE (to_string h (JObj kvs)) (\<lambda>s. Inr (date_parse h s))"
| "new_date h v = bindE (to_number h v) (\<lambda>n. Inr (time_clip n))"

definition toISOString :: "host \<Rightarrow> int option \<Rightarrow> exn + string" where
  "toISOString h d = (case d of None \<Rightarrow> Inl RangeError | Some t \<Rightarrow> Inr (iso_of_ms h t))"

text \<open>\<^verbatim>\<open>Date.parse(v)\<close>: the argument is converted to a string first.\<close>

definition Date_parse :: "host \<Rightarrow> json \<Rightarrow> exn + int option" where
  "Date_parse h v = bindE (to_string h v) (\<lambda>s. Inr (date_parse h s))"

section \<open>The canonical event\<close>

text \<open>
  \<^verbatim>\<open>NormalizedItem\<close> and \<^verbatim>\<open>NormalizedEvent\<close>.  The TypeScript types are erased at
  run time, so a field that a normalizer copies from the payload unconverted
  (\<^verbatim>\<open>name\<close>, \<^verbatim>\<open>provider_event_id\<close>, \<^verbatim>\<open>event_time\<close>, ...) holds an arbitrary value;
  a field that went through \<^verbatim>\<open>Number\<close> holds a Number, one that went through
  \<^verbatim>\<open>toUpperCase\<close> a string.  An optional field that a normalizer leaves out is
  \<open>None\<close> (or \<open>JUndef\<close> for a value).  The event's \<^verbatim>\<open>type\<close> is \<open>ev_type\<close> and
  an item's \<^verbatim>\<open>currency\<close> is \<open>item_currency\<close>.
\<close>

record normalized_item =
  name :: json
  quantity :: jsnum
  unit_amount_cents :: jsnum
  item_currency :: "string option"
  is_bump :: "bool option"

record normalized_event =
  provider :: json
  provider_event_id :: json
  provider_customer_id :: json
  ev_type :: json
  currency :: "string option"
  subtotal_cents :: "jsnum option"
  discount_cents :: "jsnum option"
  tax_cents :: "jsnum option"
  total_cents :: jsnum
  items_count :: nat
  session_id :: json
  visitor_id :: json
  event_time :: json
  data :: json
  items :: "normalized_item list"

text \<open>Limits (\<^verbatim>\<open>src/index.ts\<close>, lines 40--46).\<close>

definition MAX_ITEMS :: nat where
  "MAX_ITEMS = 100"

definition MAX_CENTS :: jsnum where
  "MAX_CENTS = Fin 100000000"

definition MAX_EVENT_AGE_DAYS :: rat where
  "MAX_EVENT_AGE_DAYS = 7"

section \<open>Normalization\<close>

definition normalizeStripeLoose :: "host \<Rightarrow> json \<Rightarrow> exn + normalized_event" where
  "normalizeStripeLoose h evt =
     bindE (if truthy (get evt ''created'')
            then bindE (to_number h (get evt ''created''))
                   (\<lambda>c. toISOString h (time_clip (js_mul c (Fin 1000))))
            else Inr (now_iso h)) (\<lambda>createdISO.
     let ident = js_or (get evt ''id'') (JStr (random_id h));
         obj = js_or (get (get evt ''data'') ''object'') (JObj []);
         amount =
          (if get evt ''type'' = JStr ''checkout.session.completed''
             then js_or (get obj ''amount_total'') (JNum (Fin 0))
           else if get evt ''type'' = JStr ''payment_intent.succeeded''
             then js_or (get obj ''amount'') (JNum (Fin 0))
           else if get evt ''type'' = JStr ''invoice.payment_succeeded''
             then js_or (get obj ''total'') (JNum (Fin 0))
           else js_or (js_or (get obj ''amount_total'') (get obj ''amount'')) (JNum (Fin 0)))
     in bindE (to_number h amount) (\<lambda>totalCents.
        bindE (toUpperCase h (js_or (get obj ''currency'') (JStr ''USD''))) (\<lambda>cur.
        Inr \<lparr> provider = JStr ''stripe'',
              provider_event_id = ident,
              provider_customer_id = js_or (get obj ''customer'') JUndef,
              ev_type = JStr ''purchase'',
              currency = Some cur,
              subtotal_cents = None,
              discount_cents = None,
              tax_cents = None,
              total_cents = totalCents,
              items_count = 0,
              session_id = JUndef,
              visitor_id = JUndef,
              event_time = JStr createdISO,
              data = JUndef,
              items = [] \<rparr>)))"

definition normalizePaddleLoose :: "host \<Rightarrow> json \<Rightarrow> exn + normalized_event" where
  "normalizePaddleLoose h p =
     bindE (toUpperCase h (js_or (get p ''currency'') (JStr ''USD''))) (\<lambda>cur.
     bindE (to_number h
              (js_or (js_or (js_or (get p ''sale_gross'') (get p ''total'')) (get p ''amount''))
                 (JNum (Fin 0)))) (\<lambda>rawTotal.
     let cents = js_round (js_mul rawTotal (if js_lt rawTotal (Fin 1000) then Fin 100 else Fin 1))
     in bindE (to_string h
                 (js_or (js_or (get p ''event_id'') (get p ''alert_id'')) (JStr (random_id h))))
          (\<lambda>ident.
        Inr \<lparr> provider = JStr ''paddle'',
              provider_event_id = JStr ident,
              provider_customer_id = JUndef,
              ev_type = JStr ''purchase'',
              currency = Some cur,
              subtotal_cents = None,
              discount_cents = None,
              tax_cents = None,
              total_cents = cents,
              items_count = (if is_array (get p ''items'') then array_length (get p ''items'') else 0),
              session_id = JUndef,
              visitor_id = JUndef,
              event_time = js_or (get p ''event_time'') (JStr (now_iso h)),
              data = JUndef,
              items = [] \<rparr>)))"

definition normalizeLemonLoose :: "host \<Rightarrow> json \<Rightarrow> exn + normalized_event" where
  "normalizeLemonLoose h p =
     (let attrs = get (get p ''data'') ''attributes''
      in bindE (toUpperCase h (js_or (get attrs ''currency'') (JStr ''USD''))) (\<lambda>cur.
         bindE (to_number h (js_or (get attrs ''total'') (JNum (Fin 0)))) (\<lambda>total.
         Inr \<lparr> provider = JStr ''lemonsqueezy'',
               provider_event_id = js_or (get (get p ''meta'') ''event_id'') (JStr (random_id h)),
               provider_customer_id = JUndef,
               ev_type = JStr ''purchase'',
               currency = Some cur,
               subtotal_cents = None,
               discount_cents = None,
               tax_cents = None,
               total_cents = total,
               items_count = 0,
               session_id = JUndef,
               visitor_id = JUndef,
               event_time = js_or (get attrs ''created_at'') (JStr (now_iso h)),
               data = JUndef,
               items = [] \<rparr>)))"

text \<open>The callback of \<^verbatim>\<open>p.line_items.map\<close> (lines 360--365).\<close>

definition shopify_item :: "host \<Rightarrow> string \<Rightarrow> json \<Rightarrow> exn + normalized_item" where
  "shopify_item h cur li =
     bindE (get_strict li ''title'') (\<lambda>title.
     bindE (to_number h (js_or (get li ''quantity'') (JNum (Fin 1)))) (\<lambda>q.
     bindE (to_number h (get li ''price'')) (\<lambda>price.
     Inr \<lparr> name = title,
           quantity = q,
           unit_amount_cents = num_or (js_round (js_mul price (Fin 100))) (Fin 0),
           item_currency = Some cur,
           is_bump = None \<rparr>)))"

definition normalizeShopifyLoose :: "host \<Rightarrow> json \<Rightarrow> exn + normalized_event" where
  "normalizeShopifyLoose h p =
     bindE (toUpperCase h (js_or (get p ''currency'') (JStr ''USD''))) (\<lambda>cur.
     bindE (to_number h
              (js_or (js_or (get p ''total_price'') (get p ''subtotal_price'')) (JNum (Fin 0))))
       (\<lambda>total.
     bindE (case get p ''line_items'' of
              JArr lis \<Rightarrow> mapE (shopify_item h cur) lis
            | _ \<Rightarrow> Inr []) (\<lambda>its.
     bindE (to_string h (js_or (get p ''id'') (JStr (random_id h)))) (\<lambda>ident.
     Inr \<lparr> provider = JStr ''shopify'',
           provider_event_id = JStr ident,
           provider_customer_id = JUndef,
           ev_type = JStr ''purchase'',
           currency = Some cur,
           subtotal_cents = None,
           discount_cents = None,
           tax_cents = None,
           total_cents = js_round (js_mul total (Fin 100)),
           items_count = length its,
           session_id = JUndef,
           visitor_id = JUndef,
           event_time = js_or (get p ''created_at'') (JStr (now_iso h)),
           data = JUndef,
           items = its \<rparr>))))"

text \<open>The callback of \<^verbatim>\<open>(payload?.items || []).map\<close> (lines 394--400).\<close>

definition custom_item :: "host \<Rightarrow> json \<Rightarrow> json \<Rightarrow> exn + normalized_item" where
  "custom_item h payload i =
     bindE (get_strict i ''name'') (\<lambda>nm.
     bindE (to_number h (js_or (get i ''quantity'') (JNum (Fin 1)))) (\<lambda>q.
     bindE (to_number h (js_or (get i ''unit_amount_cents'') (JNum (Fin 0)))) (\<lambda>amt.
     bindE (toUpperCase h
              (js_or (js_or (get i ''currency'') (get payload ''currency'')) (JStr ''USD'')))
       (\<lambda>cur.
     Inr \<lparr> name = nm,
           quantity = q,
           unit_amount_cents = amt,
           item_currency = Some cur,
           is_bump = Some (truthy (get i ''is_bump'')) \<rparr>))))"

definition normalizeCustom :: "host \<Rightarrow> json \<Rightarrow> exn + normalized_event" where
  "normalizeCustom h payload =
     bindE (toUpperCase h (js_or (get payload ''currency'') (JStr ''USD''))) (\<lambda>cur.
     bindE (to_number h (js_or (get payload ''subtotal_cents'') (JNum (Fin 0)))) (\<lambda>subtotal.
     bindE (to_number h (js_or (get payload ''discount_cents'') (JNum (Fin 0)))) (\<lambda>discount.
     bindE (to_number h (js_or (get payload ''tax_cents'') (JNum (Fin 0)))) (\<lambda>tax.
     bindE (to_number h (js_or (get payload ''total_cents'') (JNum (Fin 0)))) (\<lambda>total.
     bindE (case js_or (get payload ''items'') (JArr []) of
              JArr xs \<Rightarrow> mapE (custom_item h payload) xs
            | _ \<Rightarrow> Inl TypeError) (\<lambda>its.
     Inr \<lparr> provider = js_or (get payload ''provider'') (JStr ''custom''),
           provider_event_id =
             js_or (js_or (get payload ''provider_event_id'') (get payload ''id''))
               (JStr (random_id h)),
           provider_customer_id = JUndef,
           ev_type = js_or (get payload ''type'') (JStr ''purchase''),
           currency = Some cur,
           subtotal_cents = Some subtotal,
           discount_cents = Some discount,
           tax_cents = Some tax,
           total_cents = total,
           items_count =
             (if is_array (get payload ''items'') then array_length (get payload ''items'') else 0),
           session_id = get payload ''session_id'',
           visitor_id = get payload ''visitor_id'',
           event_time = js_or (get payload ''event_time'') (JStr (now_iso h)),
           data = js_or (get payload ''data'') (JObj []),
           items = its \<rparr>))))))"

text \<open>
  \<open>detectAndNormalize\<close> (lines 279--286): \<open>Inr None\<close> is the source's
  \<^verbatim>\<open>null\<close>, \<open>Inl\<close> an exception thrown by the selected normalizer.
\<close>

definition detectAndNormalize :: "host \<Rightarrow> json \<Rightarrow> exn + normalized_event option" where
  "detectAndNormalize h p =
     (if get p ''object'' = JStr ''event''
         \<or> (case get p ''type'' of JStr s \<Rightarrow> CHR ''.'' \<in> set s | _ \<Rightarrow> False)
        then bindE (normalizeStripeLoose h p) (\<lambda>e. Inr (Some e))
      else if truthy (js_or (js_or (get p ''alert_id'') (get p ''event_time'')) (get p ''order_id''))
        then bindE (normalizePaddleLoose h p) (\<lambda>e. Inr (Some e))
      else if truthy (js_or (get (get p ''meta'') ''event_name'')
                        (get (get (get p ''data'') ''attributes'') ''total''))
        then bindE (normalizeLemonLoose h p) (\<lambda>e. Inr (Some e))
      else if truthy (js_and (get p ''line_items'')
                        (js_or (get p ''total_price'') (get p ''subtotal_price'')))
        then bindE (normalizeShopifyLoose h p) (\<lambda>e. Inr (Some e))
      else if truthy (js_or (get p ''total_cents'') (get p ''items''))
        then bindE (normalizeCustom h p) (\<lambda>e. Inr (Some e))
      else Inr None)"

section \<open>Validation in the request handler\<close>

text \<open>
  The part of \<^verbatim>\<open>fetch\<close> between the parsed payload and the first write (lines
  141--189).  A \<open>Reply\<close> is \<^verbatim>\<open>json({ error: message }, status)\<close>; \<open>Uncaught\<close> is
  the handler's \<^verbatim>\<open>catch\<close>, which answers status 500 with the exception's message.
\<close>

datatype response = Reply nat string | Uncaught exn

definition try_catch :: "exn + 'a \<Rightarrow> response + 'a" where
  "try_catch m = (case m of Inl e \<Rightarrow> Inl (Uncaught e) | Inr a \<Rightarrow> Inr a)"

definition centsKeys :: "string list" where
  "centsKeys = [''subtotal_cents'', ''discount_cents'', ''tax_cents'', ''total_cents'']"

text \<open>The loop over \<^verbatim>\<open>centsKeys\<close> (lines 150--157).\<close>

fun check_cents :: "host \<Rightarrow> json \<Rightarrow> string list \<Rightarrow> response + unit" where
  "check_cents h payload [] = Inr ()"
| "check_cents h payload (k # ks) =
     bindE (if get payload k \<noteq> JNull \<and> get payload k \<noteq> JUndef
            then bindE (try_catch (to_number h (get payload k))) (\<lambda>v.
                   if \<not> is_integer v \<or> js_gt (js_abs v) MAX_CENTS
                   then Inl (Reply 400 (''Invalid value for '' @ k))
                   else Inr ())
            else Inr ())
       (\<lambda>_. check_cents h payload ks)"

text \<open>``Basic validation and caps'' (lines 141--157).\<close>

definition basic_validation :: "host \<Rightarrow> json \<Rightarrow> response + unit" where
  "basic_validation h payload =
     (if \<not> (case payload of JObj kvs \<Rightarrow> True | JArr xs \<Rightarrow> True | _ \<Rightarrow> False)
        then Inl (Reply 400 ''Invalid JSON object'')
      else if truthy (get payload ''items'') \<and> \<not> is_array (get payload ''items'')
        then Inl (Reply 400 ''items must be an array'')
      else if truthy (get payload ''items'') \<and> MAX_ITEMS < array_length (get payload ''items'')
        then Inl (Reply 400 ''Too many items'')
      else check_cents h payload centsKeys)"

text \<open>
  ``Time sanity: reject very old events'' (lines 163--170).  Instants are whole
  milliseconds of magnitude below \<open>2\<^sup>5\<^sup>3\<close>, so their difference is exact; the age in
  days is compared with 7 on its exact value, which the rounding of the division
  cannot change: an age other than 7 days differs from it by a millisecond at
  least, \<open>10\<^sup>-\<^sup>8\<close> days, and the division errs by less than \<open>10\<^sup>-\<^sup>1\<^sup>4\<close>.
\<close>

definition time_sanity :: "host \<Rightarrow> normalized_event \<Rightarrow> response + unit" where
  "time_sanity h ev =
     bindE (try_catch (Date_parse h (js_or (event_time ev) (JStr [])))) (\<lambda>evtMs.
       case evtMs of
         None \<Rightarrow> Inr ()
       | Some t \<Rightarrow>
           (let ageDays = (of_int (now_ms h - t) :: rat) / (1000 * 60 * 60 * 24)
            in if MAX_EVENT_AGE_DAYS < ageDays then Inl (Reply 422 ''Event too old'')
               else Inr ()))"

text \<open>The loop of ``Validate items deeply'' (lines 175--182).\<close>

fun validate_items :: "normalized_item list \<Rightarrow> response + unit" where
  "validate_items [] = Inr ()"
| "validate_items (it # its) =
     (if \<not> is_integer (num_or (unit_amount_cents it) (Fin 0))
          \<or> js_gt (js_abs (unit_amount_cents it)) MAX_CENTS
        then Inl (Reply 400 ''Invalid unit_amount_cents'')
      else if \<not> is_integer (num_or (quantity it) (Fin 0))
          \<or> js_lt (quantity it) (Fin 1) \<or> js_gt (quantity it) (Fin 1000)
        then Inl (Reply 400 ''Invalid quantity'')
      else validate_items its)"

text \<open>Lines 173--186: the item checks, then the check of \<^verbatim>\<open>norm.total_cents\<close>.\<close>

definition validate_deep :: "normalized_event \<Rightarrow> response + unit" where
  "validate_deep ev =
     bindE (if items ev \<noteq> []
            then (if MAX_ITEMS < length (items ev) then Inl (Reply 400 ''Too many items'')
                  else validate_items (items ev))
            else Inr ()) (\<lambda>_.
       if \<not> is_integer (total_cents ev) \<or> js_gt (js_abs (total_cents ev)) MAX_CENTS
       then Inl (Reply 400 ''Invalid total_cents'')
       else Inr ())"

text \<open>
  Lines 141--189 as a whole.  The result \<open>Inr (ev, eventTimeISO)\<close> is what the
  handler hands to \<^verbatim>\<open>upsert_conversion\<close>.
\<close>

definition fetch_validate :: "host \<Rightarrow> json \<Rightarrow> response + normalized_event \<times> string" where
  "fetch_validate h payload =
     bindE (basic_validation h payload) (\<lambda>_.
     bindE (try_catch (detectAndNormalize h payload)) (\<lambda>r.
       case r of
         None \<Rightarrow> Inl (Reply 400 ''Unsupported payload'')
       | Some ev \<Rightarrow>
           bindE (time_sanity h ev) (\<lambda>_.
           bindE (validate_deep ev) (\<lambda>_.
           bindE (try_catch
                    (bindE (new_date h (js_or (event_time ev) (JStr (now_iso h))))
                       (toISOString h))) (\<lambda>eventTimeISO.
           Inr (ev, eventTimeISO))))))"

section \<open>Product mapping\<close>

text \<open>A row of \<^verbatim>\<open>node_products\<close>, as \<^verbatim>\<open>fetchNodeProductMappings\<close> types it.\<close>

record product_mapping =
  product_id :: string
  is_primary :: bool
  price_points_cents :: "jsnum list option"

text \<open>\<^verbatim>\<open>NormalizedItem & { product_id?: string }\<close>\<close>

record mapped_item = normalized_item +
  mi_product_id :: "string option"

text \<open>\<^verbatim>\<open>s || d\<close> for an optional string \<open>s\<close>: the empty string is falsy.\<close>

definition str_or :: "string option \<Rightarrow> string \<Rightarrow> string" where
  "str_or s d = (case s of None \<Rightarrow> d | Some c \<Rightarrow> if c = [] then d else c)"

text \<open>The literal \<^verbatim>\<open>0.05\<close>: the double nearest to \<open>1/20\<close>.\<close>

definition tolerance :: jsnum where
  "tolerance = to_double (1 / 20)"

definition mapItemsToProducts ::
  "normalized_item list \<Rightarrow> product_mapping list \<Rightarrow> string \<Rightarrow> mapped_item list" where
  "mapItemsToProducts its mappings defaultCurrency =
     (if its = [] then []
      else
        let primary = find is_primary mappings
        in map (\<lambda>it.
             let match = find (\<lambda>m.
                   case price_points_cents m of
                     None \<Rightarrow> False
                   | Some pps \<Rightarrow>
                       if \<not> num_truthy (unit_amount_cents it) then False
                       else list_ex (\<lambda>p.
                              js_le (js_abs (js_sub p (unit_amount_cents it)))
                                (js_max (Fin 1) (js_mul p tolerance))) pps) mappings;
                 pid = (case match of
                          Some m \<Rightarrow> Some (product_id m)
                        | None \<Rightarrow>
                           (case primary of Some pr \<Rightarrow> Some (product_id pr) | None \<Rightarrow> None))
             in \<lparr> name = name it,
                  quantity = quantity it,
                  unit_amount_cents = unit_amount_cents it,
                  item_currency =
                    Some (str_or (item_currency it)
                            (if defaultCurrency \<noteq> [] then defaultCurrency else ''USD'')),
                  is_bump = is_bump it,
                  mi_product_id = pid \<rparr>) its)"

text \<open>
  Lines 235--251 of \<^verbatim>\<open>fetch\<close>: the items are mapped, and when that leaves none
  the total is attributed to the primary product.
\<close>

definition fetch_mapped_items :: "normalized_event \<Rightarrow> product_mapping list \<Rightarrow> mapped_item list" where
  "fetch_mapped_items ev mappings =
     (let mappedItems = mapItemsToProducts (items ev) mappings (str_or (currency ev) ''USD'')
      in if mappedItems = [] \<and> mappings \<noteq> []
         then (case find is_primary mappings of
                 Some primary \<Rightarrow>
                   [\<lparr> name = JStr ''Order'',
                      quantity = Fin 1,
                      unit_amount_cents = total_cents ev,
                      item_currency = Some (str_or (currency ev) ''USD''),
                      is_bump = Some False,
                      mi_product_id = Some (product_id primary) \<rparr>]
               | None \<Rightarrow> mappedItems)
         else mappedItems)"

section \<open>A host for the worked examples\<close>

text \<open>
  The examples below run the model on concrete payloads, which needs a concrete
  host.  Its \<open>str_to_num\<close> reads a string as \<^verbatim>\<open>Number\<close> does: white space around
  it is dropped, the empty string is \<open>0\<close>, then come \<^verbatim>\<open>0x\<close>, \<^verbatim>\<open>0o\<close> and \<^verbatim>\<open>0b\<close>
  integers, or an optional sign followed by \<^verbatim>\<open>Infinity\<close> or by a decimal literal
  with an optional fraction and exponent; anything else is NaN, and the value read
  is rounded to the nearest double.  (Of the white space only the ASCII characters
  are known.)  Its \<open>num_to_str\<close> prints integers as \<^verbatim>\<open>String\<close> does.  It upper-cases
  ASCII letters, and it knows three instants with their time values; its clock
  stands at 2024-01-15T00:00:00.000Z.
\<close>

definition is_space :: "char \<Rightarrow> bool" where
  "is_space c = ((of_char c :: int) \<in> {9, 10, 11, 12, 13, 32})"

definition trim :: "string \<Rightarrow> string" where
  "trim s = rev (dropWhile is_space (rev (dropWhile is_space s)))"

text \<open>The value of a digit, letters counting from ten.\<close>

definition digit_of :: "char \<Rightarrow> int option" where
  "digit_of c =
     (let n = (of_char c :: int)
      in if 48 \<le> n \<and> n \<le> 57 then Some (n - 48)
         else if 97 \<le> n \<and> n \<le> 102 then Some (n - 87)
         else if 65 \<le> n \<and> n \<le> 70 then Some (n - 55)
         else None)"

text \<open>A non-empty string of digits below the base, read in that base.\<close>

definition digits_in :: "int \<Rightarrow> string \<Rightarrow> int option" where
  "digits_in b s =
     (if s = [] \<or> \<not> list_all (\<lambda>c. case digit_of c of Some d \<Rightarrow> d < b | None \<Rightarrow> False) s
      then None
      else Some (foldl (\<lambda>n c. b * n + the (digit_of c)) 0 s))"

text \<open>Digits that may be missing altogether: the two sides of a decimal point.\<close>

definition digits_opt :: "string \<Rightarrow> int option" where
  "digits_opt s = (if s = [] then Some 0 else digits_in 10 s)"

text \<open>The exponent part, \<^verbatim>\<open>e\<close> or \<^verbatim>\<open>E\<close> included; no exponent part is exponent \<open>0\<close>.\<close>

definition exponent_of :: "string \<Rightarrow> int option" where
  "exponent_of s =
     (case s of
        [] \<Rightarrow> Some 0
      | e # r \<Rightarrow>
         (case r of
            [] \<Rightarrow> None
          | c # d \<Rightarrow>
              if c = CHR ''-'' then map_option uminus (digits_in 10 d)
              else if c = CHR ''+'' then digits_in 10 d
              else digits_in 10 r))"

text \<open>An unsigned decimal literal: its exact value.\<close>

definition decimal_of :: "string \<Rightarrow> rat option" where
  "decimal_of s =
     (let m = takeWhile (\<lambda>c. c \<noteq> CHR ''e'' \<and> c \<noteq> CHR ''E'') s;
          ip = takeWhile (\<lambda>c. c \<noteq> CHR ''.'') m;
          fp = drop 1 (dropWhile (\<lambda>c. c \<noteq> CHR ''.'') m)
      in if ip = [] \<and> fp = [] then None
         else
           case (digits_opt ip, digits_opt fp,
                 exponent_of (dropWhile (\<lambda>c. c \<noteq> CHR ''e'' \<and> c \<noteq> CHR ''E'') s)) of
             (Some i, Some f, Some x) \<Rightarrow>
               Some ((of_int i + of_int f / 10 ^ length fp)
                     * (if 0 \<le> x then 10 ^ nat x else 1 / 10 ^ nat (- x)))
           | _ \<Rightarrow> None)"

definition unsigned_num :: "string \<Rightarrow> jsnum" where
  "unsigned_num s =
     (if s = ''Infinity'' then PInf
      else case decimal_of s of Some r \<Rightarrow> to_double r | None \<Rightarrow> NaN)"

definition negate :: "jsnum \<Rightarrow> jsnum" where
  "negate x = (case x of Fin r \<Rightarrow> Fin (- r) | PInf \<Rightarrow> NInf | NInf \<Rightarrow> PInf | NaN \<Rightarrow> NaN)"

definition radix_num :: "int \<Rightarrow> string \<Rightarrow> jsnum" where
  "radix_num b s = (case digits_in b s of Some n \<Rightarrow> to_double (of_int n) | None \<Rightarrow> NaN)"

definition dec_num :: "string \<Rightarrow> jsnum" where
  "dec_num s0 =
     (let s = trim s0
      in if s = [] then Fin 0
         else if take 2 s = ''0x'' \<or> take 2 s = ''0X'' then radix_num 16 (drop 2 s)
         else if take 2 s = ''0o'' \<or> take 2 s = ''0O'' then radix_num 8 (drop 2 s)
         else if take 2 s = ''0b'' \<or> take 2 s = ''0B'' then radix_num 2 (drop 2 s)
         else if hd s = CHR ''-'' then negate (unsigned_num (tl s))
         else if hd s = CHR ''+'' then unsigned_num (tl s)
         else unsigned_num s)"

text \<open>
  Printing.  An integer prints with all its digits, as \<^verbatim>\<open>String\<close> prints the
  integers below \<open>10\<^sup>2\<^sup>1\<close>.  Another finite value prints with up to twenty digits
  of its exact expansion, which is not the short form ECMAScript chooses; no
  example prints one.
\<close>

function digits_str :: "int \<Rightarrow> string" where
  "digits_str n =
     (if n < 10 then [''0123456789'' ! nat n]
      else digits_str (n div 10) @ [''0123456789'' ! nat (n mod 10)])"
  by pat_completeness auto
termination
  by (relation "measure nat") auto

declare digits_str.simps [simp del]

fun frac_str :: "nat \<Rightarrow> rat \<Rightarrow> string" where
  "frac_str 0 r = []"
| "frac_str (Suc k) r =
     (if r = 0 then []
      else (''0123456789'' ! nat \<lfloor>r * 10\<rfloor>) # frac_str k (r * 10 - of_int \<lfloor>r * 10\<rfloor>))"

fun num_str :: "jsnum \<Rightarrow> string" where
  "num_str (Fin r) =
     (if r < 0 then ''-'' else []) @ digits_str \<lfloor>\<bar>r\<bar>\<rfloor>
       @ (if of_int \<lfloor>r\<rfloor> = r then [] else ''.'' @ frac_str 20 (\<bar>r\<bar> - of_int \<lfloor>\<bar>r\<bar>\<rfloor>))"
| "num_str PInf = ''Infinity''"
| "num_str NInf = ''-Infinity''"
| "num_str NaN = ''NaN''"

definition ascii_upper :: "string \<Rightarrow> string" where
  "ascii_upper s =
     map (\<lambda>c. case map_of (zip ''abcdefghijklmnopqrstuvwxyz'' ''ABCDEFGHIJKLMNOPQRSTUVWXYZ'') c of
                 Some u \<Rightarrow> u | None \<Rightarrow> c) s"

definition demo_instants :: "(string \<times> int) list" where
  "demo_instants =
     [(''2024-01-15T00:00:00.000Z'', 1705276800000),
      (''2024-01-09T00:00:00.000Z'', 1704758400000),
      (''2024-01-07T00:00:00.000Z'', 1704585600000)]"

definition demo_host :: host where
  "demo_host =
     \<lparr> str_to_num = dec_num,
       num_to_str = num_str,
       to_upper = ascii_upper,
       now_ms = 1705276800000,
       now_iso = ''2024-01-15T00:00:00.000Z'',
       date_parse = map_of demo_instants,
       iso_of_ms = (\<lambda>t. case map_of (map (\<lambda>(s, t). (t, s)) demo_instants) t of
                           Some s \<Rightarrow> s | None \<Rightarrow> []),
       random_id = ''000102030405060708090a0b0c0d0e0f'' \<rparr>"


section \<open>Detection signals\<close>

text \<open>
  The five signals of the detector, each stated on the fields of the payload, and
  the wrapping of a normalizer's result by \<open>detectAndNormalize\<close>.
\<close>

definition stripe_signal :: "json \<Rightarrow> bool" where
  "stripe_signal p =
     (get p ''object'' = JStr ''event''
      \<or> (case get p ''type'' of JStr s \<Rightarrow> CHR ''.'' \<in> set s | _ \<Rightarrow> False))"

definition paddle_signal :: "json \<Rightarrow> bool" where
  "paddle_signal p =
     (truthy (get p ''alert_id'') \<or> truthy (get p ''event_time'') \<or> truthy (get p ''order_id''))"

definition lemon_signal :: "json \<Rightarrow> bool" where
  "lemon_signal p =
     (truthy (get (get p ''meta'') ''event_name'')
      \<or> truthy (get (get (get p ''data'') ''attributes'') ''total''))"

definition shopify_signal :: "json \<Rightarrow> bool" where
  "shopify_signal p =
     (truthy (get p ''line_items'')
      \<and> (truthy (get p ''total_price'') \<or> truthy (get p ''subtotal_price'')))"

definition custom_signal :: "json \<Rightarrow> bool" where
  "custom_signal p = (truthy (get p ''total_cents'') \<or> truthy (get p ''items''))"

definition selected :: "(exn + normalized_event) \<Rightarrow> exn + normalized_event option" where
  "selected m = bindE m (\<lambda>e. Inr (Some e))"

text \<open>\<^verbatim>\<open>{"alert_id": "a1", "line_items": [], "total_price": 5}\<close>\<close>

definition paddle_and_shopify :: json where
  "paddle_and_shopify =
     JObj [(''alert_id'', JStr ''a1''), (''line_items'', JArr []), (''total_price'', JNum (Fin 5))]"

section \<open>The matching rule in the spec's words\<close>

text \<open>
  \<open>|p - a| \<le> max(1, p \<times> 0.05)\<close>, and ``the mapping has some price point within
  tolerance of the amount''.
\<close>

definition within_tolerance :: "jsnum \<Rightarrow> jsnum \<Rightarrow> bool" where
  "within_tolerance p a = js_le (js_abs (js_sub p a)) (js_max (Fin 1) (js_mul p tolerance))"

definition price_match :: "product_mapping \<Rightarrow> jsnum \<Rightarrow> bool" where
  "price_match m a =
     (case price_points_cents m of
        None \<Rightarrow> False
      | Some pps \<Rightarrow> list_ex (\<lambda>p. within_tolerance p a) pps)"

text \<open>Items and mappings for the examples.\<close>

definition item_priced :: "jsnum \<Rightarrow> normalized_item" where
  "item_priced a =
     \<lparr> name = JStr ''Pro'', quantity = Fin 1, unit_amount_cents = a,
       item_currency = Some ''USD'', is_bump = Some False \<rparr>"

definition mapping_A :: product_mapping where
  "mapping_A = \<lparr> product_id = ''A'', is_primary = False, price_points_cents = Some [Fin 1000] \<rparr>"

definition mapping_B :: product_mapping where
  "mapping_B = \<lparr> product_id = ''B'', is_primary = True, price_points_cents = None \<rparr>"

definition mapping_free :: product_mapping where
  "mapping_free = \<lparr> product_id = ''F'', is_primary = False, price_points_cents = Some [Fin 0] \<rparr>"

definition item_absent_currency :: normalized_item where
  "item_absent_currency =
     \<lparr> name = JStr ''Bump'', quantity = Fin 3, unit_amount_cents = Fin 500,
       item_currency = None, is_bump = Some True \<rparr>"

definition event_without_items :: normalized_event where
  "event_without_items =
     \<lparr> provider = JStr ''stripe'', provider_event_id = JStr ''evt_1'',
       provider_customer_id = JUndef, ev_type = JStr ''purchase'', currency = Some ''EUR'',
       subtotal_cents = None, discount_cents = None, tax_cents = None, total_cents = Fin 5000,
       items_count = 0, session_id = JUndef, visitor_id = JUndef,
       event_time = JStr ''2024-01-15T00:00:00.000Z'', data = JUndef, items = [] \<rparr>"

section \<open>The normalizers' rules in the spec's words\<close>

text \<open>
  ``The first of these values that is truthy, else the default'': what a chain
  \<^verbatim>\<open>a || b || c || d\<close> selects.
\<close>

definition first_truthy :: "json list \<Rightarrow> json \<Rightarrow> json" where
  "first_truthy vs d = (case filter truthy vs of [] \<Rightarrow> d | v # _ \<Rightarrow> v)"

text \<open>
  The paddle unit-scale rule: below 1000 the value is taken as a major-unit
  amount, \<open>round(100 \<times> v)\<close>; otherwise as cents, \<open>round(v)\<close>.  The product is the
  product of doubles, \<open>js_mul\<close>.
\<close>

definition paddle_cents :: "jsnum \<Rightarrow> jsnum" where
  "paddle_cents v = (if js_lt v (Fin 1000) then js_round (js_mul (Fin 100) v) else js_round v)"

text \<open>The shopify item amount: \<open>round(100 \<times> price)\<close>, and \<open>0\<close> when that is NaN.\<close>

definition shopify_unit_cents :: "jsnum \<Rightarrow> jsnum" where
  "shopify_unit_cents price =
     (if js_round (js_mul (Fin 100) price) = NaN then Fin 0
      else js_round (js_mul (Fin 100) price))"

text \<open>The elements of \<^verbatim>\<open>p.line_items\<close> when it is an array, none otherwise.\<close>

definition line_items_of :: "json \<Rightarrow> json list" where
  "line_items_of p = (case get p ''line_items'' of JArr lis \<Rightarrow> lis | _ \<Rightarrow> [])"

text \<open>Payloads for the examples.\<close>

definition paddle_zero_gross :: json where
  "paddle_zero_gross =
     JObj [(''alert_id'', JStr ''a1''), (''sale_gross'', JNum (Fin 0)), (''total'', JNum (Fin 50))]"

definition paddle_decimal :: json where
  "paddle_decimal = JObj [(''alert_id'', JStr ''a1''), (''sale_gross'', JStr ''12.50'')]"

definition paddle_cents_already :: json where
  "paddle_cents_already = JObj [(''alert_id'', JStr ''a2''), (''amount'', JNum (Fin 2500))]"

text \<open>
  \<^verbatim>\<open>{"alert_id": "a3", "sale_gross": "8.575"}\<close> and
  \<^verbatim>\<open>{"alert_id": "a4", "sale_gross": 1.115}\<close>: amounts whose product with 100 is not
  the product of the decimals.  The double nearest to 8.575 times 100 is
  857.4999999999999, and the double nearest to 1.115 times 100 is 111.5.
\<close>

definition paddle_below_half :: json where
  "paddle_below_half = JObj [(''alert_id'', JStr ''a3''), (''sale_gross'', JStr ''8.575'')]"

definition paddle_at_half :: json where
  "paddle_at_half =
     JObj [(''alert_id'', JStr ''a4''), (''sale_gross'', JNum (to_double (223 / 200)))]"

definition shopify_order :: json where
  "shopify_order =
     JObj [(''id'', JStr ''o1''),
           (''total_price'', JStr ''24.99''),
           (''line_items'',
            JArr [JObj [(''title'', JStr ''Shirt''), (''price'', JStr ''19.99''),
                        (''quantity'', JNum (Fin 2))],
                  JObj [(''title'', JStr ''Sticker''), (''price'', JStr ''1.005'')]])]"

definition shopify_odd :: json where
  "shopify_odd =
     JObj [(''id'', JStr ''o2''),
           (''total_price'', JNum (Fin 0)),
           (''subtotal_price'', JNum (Fin 5)),
           (''line_items'',
            JArr [JObj [(''title'', JStr ''Shirt''), (''price'', JStr ''19.99''),
                        (''quantity'', JStr ''abc'')]])]"

text \<open>\<^verbatim>\<open>{"id": "o4", "total_price": 5, "line_items": [null]}\<close>\<close>

definition shopify_null_item :: json where
  "shopify_null_item =
     JObj [(''id'', JStr ''o4''), (''total_price'', JNum (Fin 5)),
           (''line_items'', JArr [JNull])]"

section \<open>Payloads for the validation examples\<close>

text \<open>
  The clock of the example host stands at 2024-01-15; 2024-01-07 is eight days
  before, 2024-01-09 six days.  A day has 86400000 ms.
\<close>

definition day_ms :: int where
  "day_ms = 86400000"

definition shopify_dated :: "string \<Rightarrow> jsnum \<Rightarrow> json" where
  "shopify_dated created qty =
     JObj [(''id'', JStr ''o3''),
           (''created_at'', JStr created),
           (''total_price'', JNum (Fin 10)),
           (''line_items'',
            JArr [JObj [(''title'', JStr ''Shirt''), (''price'', JNum (Fin 10)),
                        (''quantity'', JNum qty)]])]"

text \<open>
  \<^verbatim>\<open>{"event_time": t, "sale_gross": 10}\<close>, a paddle-like payload; and the same
  with the instant of 2024-01-07 as a number of milliseconds,
  \<^verbatim>\<open>{"event_time": 1704585600000, "sale_gross": 10}\<close>.
\<close>

definition paddle_dated :: "json \<Rightarrow> json" where
  "paddle_dated t = JObj [(''event_time'', t), (''sale_gross'', JNum (Fin 10))]"

definition paddle_epoch :: json where
  "paddle_epoch = paddle_dated (JNum (Fin 1704585600000))"

text \<open>\<^verbatim>\<open>{"object": "event", "data": {"object": {"currency": 5}}}\<close>\<close>

definition stripe_numeric_currency :: json where
  "stripe_numeric_currency =
     JObj [(''object'', JStr ''event''),
           (''data'', JObj [(''object'', JObj [(''currency'', JNum (Fin 5))])])]"

text \<open>\<^verbatim>\<open>{"total_cents": 100, "items": [null]}\<close>\<close>

definition custom_null_item :: json where
  "custom_null_item = JObj [(''total_cents'', JNum (Fin 100)), (''items'', JArr [JNull])]"

text \<open>
  \<^verbatim>\<open>{"provider": "custom", "total_cents": 9900,
    "items": [{"name": "Pro", "quantity": q, "unit_amount_cents": a}]}\<close>
\<close>

definition custom_order :: "json \<Rightarrow> json \<Rightarrow> json" where
  "custom_order q a =
     JObj [(''provider'', JStr ''custom''),
           (''total_cents'', JNum (Fin 9900)),
           (''items'',
            JArr [JObj [(''name'', JStr ''Pro''), (''quantity'', q),
                        (''unit_amount_cents'', a)]])]"

text \<open>What of an accepted event the item rows are written from.\<close>

definition accepted_items :: "response + normalized_event \<times> string \<Rightarrow> response + (jsnum \<times> jsnum) list" where
  "accepted_items r =
     map_sum id (\<lambda>(ev, s). map (\<lambda>it. (quantity it, unit_amount_cents it)) (items ev)) r"

text \<open>The event that \<open>paddle_dated t\<close> normalizes to on the example host, for a truthy \<open>t\<close>.\<close>

definition paddle_dated_event :: "json \<Rightarrow> normalized_event" where
  "paddle_dated_event t =
     \<lparr> provider = JStr ''paddle'',
       provider_event_id = JStr ''000102030405060708090a0b0c0d0e0f'',
       provider_customer_id = JUndef, ev_type = JStr ''purchase'', currency = Some ''USD'',
       subtotal_cents = None, discount_cents = None, tax_cents = None,
       total_cents = Fin 1000, items_count = 0, session_id = JUndef, visitor_id = JUndef,
       event_time = t, data = JUndef, items = [] \<rparr>"

section \<open>Facts about the language layer\<close>

lemma truthy_js_or: "truthy (js_or a b) = (truthy a \<or> truthy b)"
  by (simp add: js_or_def)

lemma truthy_js_and: "truthy (js_and a b) = (truthy a \<and> truthy b)"
  by (simp add: js_and_def)

lemma bindE_Inr_iff: "bindE m f = Inr y \<longleftrightarrow> (\<exists>a. m = Inr a \<and> f a = Inr y)"
  by (cases m) (simp_all add: bindE_def)

lemma bindE_Inr [simp]: "bindE (Inr a) f = f a"
  by (simp add: bindE_def)

lemma bindE_Inl [simp]: "bindE (Inl e) f = Inl e"
  by (simp add: bindE_def)

lemma floor_rat_numeral_div [simp]:
  "\<lfloor>(numeral a :: rat) / numeral b\<rfloor> = numeral a div numeral b"
  using floor_divide_of_int_eq [of "numeral a" "numeral b", where ?'a = rat] by simp

lemma floor_rat_one_div [simp]: "\<lfloor>(1 :: rat) / numeral b\<rfloor> = 1 div numeral b"
  using floor_divide_of_int_eq [of 1 "numeral b", where ?'a = rat] by simp

lemma floor_rat_neg_numeral_div [simp]:
  "\<lfloor>- (numeral a :: rat) / numeral b\<rfloor> = - numeral a div numeral b"
  using floor_divide_of_int_eq [of "- numeral a" "numeral b", where ?'a = rat] by simp

lemma floor_rat_neg_numeral_div' [simp]:
  "\<lfloor>- ((numeral a :: rat) / numeral b)\<rfloor> = - numeral a div numeral b"
  using floor_divide_of_int_eq [of "- numeral a" "numeral b", where ?'a = rat] by simp

lemma floor_rat_neg_one_div [simp]:
  "\<lfloor>- ((1 :: rat) / numeral b)\<rfloor> = - 1 div numeral b"
  using floor_divide_of_int_eq [of "- 1" "numeral b", where ?'a = rat] by simp

text \<open>The equations that evaluate a rounding to the nearest double.\<close>

lemmas double_eval =
  to_double_def ilog2_def pow2_def round_half_even_def bit_length.simps Let_def

lemma tolerance_eval: "tolerance = Fin (3602879701896397 / 72057594037927936)"
  by (simp add: tolerance_def double_eval)

text \<open>The equations that evaluate the example host's reading of a string.\<close>

lemmas dec_eval =
  dec_num_def trim_def is_space_def unsigned_num_def decimal_of_def digits_opt_def
  digits_in_def digit_of_def exponent_of_def negate_def radix_num_def

lemma js_or_chain2: "js_or (js_or a b) d = first_truthy [a, b] d"
  by (simp add: js_or_def first_truthy_def)

lemma js_or_chain3: "js_or (js_or (js_or a b) c) d = first_truthy [a, b, c] d"
  by (simp add: js_or_def first_truthy_def)

lemma js_mul_commute: "js_mul x y = js_mul y x"
  by (cases x; cases y) (simp_all add: mult.commute)

lemma js_mul_one: "is_double x \<Longrightarrow> js_mul x (Fin 1) = x"
  by (cases x) (simp_all add: is_double_def)

lemma mapE_nth:
  "mapE f xs = Inr ys \<Longrightarrow> length ys = length xs \<and> (\<forall>i<length xs. f (xs ! i) = Inr (ys ! i))"
proof (induction xs arbitrary: ys)
  case Nil
  then show ?case by simp
next
  case (Cons x xs)
  from Cons.prems obtain y ys' where y: "f x = Inr y" and ys': "mapE f xs = Inr ys'"
    and ys: "ys = y # ys'"
    by (auto simp: bindE_Inr_iff)
  from Cons.IH [OF ys'] have ih: "length ys' = length xs"
    "\<And>i. i < length xs \<Longrightarrow> f (xs ! i) = Inr (ys' ! i)"
    by auto
  show ?case
    using y ys ih by (auto simp: nth_Cons split: nat.splits)
qed

lemma mapE_total:
  "(\<forall>x\<in>set xs. \<exists>y. f x = Inr y) \<Longrightarrow> \<exists>ys. mapE f xs = Inr ys"
  by (induction xs) (auto simp: bindE_def split: sum.splits)

lemma mapE_error:
  "x \<in> set xs \<Longrightarrow> f x = Inl e \<Longrightarrow> \<exists>e'. mapE f xs = Inl e'"
  by (induction xs) (auto simp: bindE_def split: sum.splits)

lemma demo_host_sel:
  "str_to_num demo_host = dec_num"
  "num_to_str demo_host = num_str"
  "to_upper demo_host = ascii_upper"
  "now_ms demo_host = 1705276800000"
  "now_iso demo_host = ''2024-01-15T00:00:00.000Z''"
  "date_parse demo_host = map_of demo_instants"
  "iso_of_ms demo_host =
     (\<lambda>t. case map_of (map (\<lambda>(s, t). (t, s)) demo_instants) t of Some s \<Rightarrow> s | None \<Rightarrow> [])"
  "random_id demo_host = ''000102030405060708090a0b0c0d0e0f''"
  by (simp_all add: demo_host_def)

lemma js_or_truthy: "truthy a \<Longrightarrow> js_or a b = a"
  by (simp add: js_or_def)

lemma js_or_falsy: "\<not> truthy a \<Longrightarrow> js_or a b = b"
  by (simp add: js_or_def)

section \<open>Provider detection\<close>

lemma detect_unfold:
  "detectAndNormalize h p =
     (if stripe_signal p then selected (normalizeStripeLoose h p)
      else if paddle_signal p then selected (normalizePaddleLoose h p)
      else if lemon_signal p then selected (normalizeLemonLoose h p)
      else if shopify_signal p then selected (normalizeShopifyLoose h p)
      else if custom_signal p then selected (normalizeCustom h p)
      else Inr None)"
  unfolding detectAndNormalize_def stripe_signal_def paddle_signal_def lemon_signal_def
    shopify_signal_def custom_signal_def selected_def truthy_js_or truthy_js_and
  by (simp only: disj_assoc)

text \<open>
  C4, as the source has it.  The detector tries the signals in the fixed order
  stripe, paddle, lemon, shopify, custom, and the first one that holds selects the
  normalizer; when none holds the result is \<^verbatim>\<open>null\<close>, and a payload that passed the
  basic validation is then answered 400 ``Unsupported payload''.  A signal asks for
  a truthy field, not for a present one: paddle for a truthy \<^verbatim>\<open>alert_id\<close>,
  \<^verbatim>\<open>event_time\<close> or \<^verbatim>\<open>order_id\<close>; lemon for a truthy \<^verbatim>\<open>meta.event_name\<close> or
  \<^verbatim>\<open>data.attributes.total\<close>; shopify for a truthy \<^verbatim>\<open>line_items\<close> of any type
  together with a truthy \<^verbatim>\<open>total_price\<close> or \<^verbatim>\<open>subtotal_price\<close>; custom for a truthy
  \<^verbatim>\<open>total_cents\<close> or \<^verbatim>\<open>items\<close>.  In particular a payload with a paddle and a
  shopify signal and no stripe signal goes to the paddle normalizer.
\<close>

theorem detect_first_match_wins:
  "(stripe_signal p \<longrightarrow> detectAndNormalize h p = selected (normalizeStripeLoose h p))
   \<and> (\<not> stripe_signal p \<and> paddle_signal p \<longrightarrow>
        detectAndNormalize h p = selected (normalizePaddleLoose h p))
   \<and> (\<not> stripe_signal p \<and> \<not> paddle_signal p \<and> lemon_signal p \<longrightarrow>
        detectAndNormalize h p = selected (normalizeLemonLoose h p))
   \<and> (\<not> stripe_signal p \<and> \<not> paddle_signal p \<and> \<not> lemon_signal p \<and> shopify_signal p \<longrightarrow>
        detectAndNormalize h p = selected (normalizeShopifyLoose h p))
   \<and> (\<not> stripe_signal p \<and> \<not> paddle_signal p \<and> \<not> lemon_signal p \<and> \<not> shopify_signal p
        \<and> custom_signal p \<longrightarrow>
        detectAndNormalize h p = selected (normalizeCustom h p))
   \<and> (\<not> stripe_signal p \<and> \<not> paddle_signal p \<and> \<not> lemon_signal p \<and> \<not> shopify_signal p
        \<and> \<not> custom_signal p \<longrightarrow>
        detectAndNormalize h p = Inr None
        \<and> (basic_validation h p = Inr () \<longrightarrow>
             fetch_validate h p = Inl (Reply 400 ''Unsupported payload'')))
   \<and> (\<not> stripe_signal p \<and> paddle_signal p \<and> shopify_signal p \<longrightarrow>
        detectAndNormalize h p = selected (normalizePaddleLoose h p))"
  by (simp add: detect_unfold fetch_validate_def bindE_def try_catch_def)

text \<open>
  The theorem at a payload with a paddle signal (\<^verbatim>\<open>alert_id\<close>) and a shopify signal
  (\<^verbatim>\<open>line_items\<close> and \<^verbatim>\<open>total_price\<close>), which comes out as a paddle event, and at a
  payload with no signal at all.
\<close>

theorem detect_first_match_wins_witness:
  "\<not> stripe_signal paddle_and_shopify \<and> paddle_signal paddle_and_shopify
   \<and> shopify_signal paddle_and_shopify
   \<and> detectAndNormalize demo_host paddle_and_shopify
       = selected (normalizePaddleLoose demo_host paddle_and_shopify)
   \<and> map_sum id (map_option provider) (detectAndNormalize demo_host paddle_and_shopify)
       = Inr (Some (JStr ''paddle''))
   \<and> basic_validation demo_host (JObj [(''foo'', JNum (Fin 1))]) = Inr ()
   \<and> fetch_validate demo_host (JObj [(''foo'', JNum (Fin 1))])
       = Inl (Reply 400 ''Unsupported payload'')"
  using detect_first_match_wins [of paddle_and_shopify demo_host]
    detect_first_match_wins [of "JObj [(''foo'', JNum (Fin 1))]" demo_host]
  by (simp add: paddle_and_shopify_def stripe_signal_def paddle_signal_def shopify_signal_def
      lemon_signal_def custom_signal_def selected_def normalizePaddleLoose_def bindE_def
      js_or_def demo_host_def ascii_upper_def basic_validation_def centsKeys_def)

text \<open>
  C4 as the spec words it fails twice.  \<^verbatim>\<open>{"total_cents": 0}\<close> has
  \<^verbatim>\<open>total_cents\<close>, yet it is not custom: the detector returns \<^verbatim>\<open>null\<close> and the
  handler answers 400.  \<^verbatim>\<open>{"line_items": "x", "total_price": 5}\<close> has no
  \<^verbatim>\<open>line_items\<close> array, yet it is normalized as shopify.
\<close>

theorem detect_presence_counterexample:
  "detectAndNormalize demo_host (JObj [(''total_cents'', JNum (Fin 0))]) = Inr None
   \<and> fetch_validate demo_host (JObj [(''total_cents'', JNum (Fin 0))])
       = Inl (Reply 400 ''Unsupported payload'')
   \<and> map_sum id (map_option provider)
        (detectAndNormalize demo_host
           (JObj [(''line_items'', JStr ''x''), (''total_price'', JNum (Fin 5))]))
       = Inr (Some (JStr ''shopify''))"
  by (simp add: detectAndNormalize_def fetch_validate_def basic_validation_def centsKeys_def
      try_catch_def bindE_def js_or_def js_and_def normalizeShopifyLoose_def demo_host_def
      ascii_upper_def MAX_CENTS_def js_gt_def)

section \<open>Attribution\<close>

lemma source_match_pred:
  "(case price_points_cents m of
      None \<Rightarrow> False
    | Some pps \<Rightarrow>
        if \<not> num_truthy a then False
        else list_ex (\<lambda>p. js_le (js_abs (js_sub p a)) (js_max (Fin 1) (js_mul p tolerance))) pps)
   = (num_truthy a \<and> price_match m a)"
  by (auto simp: price_match_def within_tolerance_def split: option.splits)

lemma tolerance_examples:
  "within_tolerance (Fin 1000) (Fin 1049)"
  "\<not> within_tolerance (Fin 1000) (Fin 1051)"
  "within_tolerance (Fin 0) (Fin 0)"
  by (simp_all add: within_tolerance_def tolerance_eval double_eval js_le_def js_max_def)

lemma price_match_examples:
  "price_match mapping_A (Fin 1049)"
  "\<not> price_match mapping_A (Fin 1051)"
  "\<not> price_match mapping_B a"
  "price_match mapping_free (Fin 0)"
  by (simp_all add: price_match_def mapping_A_def mapping_B_def mapping_free_def
      tolerance_examples)

lemma mapping_sel:
  "product_id mapping_A = ''A''" "is_primary mapping_A = False"
  "product_id mapping_B = ''B''" "is_primary mapping_B = True"
  "product_id mapping_free = ''F''" "is_primary mapping_free = False"
  by (simp_all add: mapping_A_def mapping_B_def mapping_free_def)

lemma mapItemsToProducts_length: "length (mapItemsToProducts its ms dc) = length its"
  by (simp add: mapItemsToProducts_def Let_def)

lemma mapItemsToProducts_nth:
  assumes "i < length its"
  shows "mapItemsToProducts its ms dc ! i =
     \<lparr> name = name (its ! i),
       quantity = quantity (its ! i),
       unit_amount_cents = unit_amount_cents (its ! i),
       item_currency =
         Some (str_or (item_currency (its ! i)) (if dc \<noteq> [] then dc else ''USD'')),
       is_bump = is_bump (its ! i),
       mi_product_id =
         (case find (\<lambda>m. num_truthy (unit_amount_cents (its ! i))
                         \<and> price_match m (unit_amount_cents (its ! i))) ms of
            Some m \<Rightarrow> Some (product_id m)
          | None \<Rightarrow> map_option product_id (find is_primary ms)) \<rparr>"
proof -
  from assms have "its \<noteq> []" by auto
  with assms show ?thesis
    by (simp add: mapItemsToProducts_def Let_def source_match_pred split: option.splits)
qed

lemma find_first_index:
  assumes "j < length xs" "P (xs ! j)" "\<forall>k<j. \<not> P (xs ! k)"
  shows "find P xs = Some (xs ! j)"
  using assms by (auto simp: find_Some_iff)

lemma find_none_index:
  assumes "\<forall>j<length xs. \<not> P (xs ! j)"
  shows "find P xs = None"
  using assms by (auto simp: find_None_iff in_set_conv_nth)

text \<open>
  C1, as the source has it.  Every item is kept.  For an item whose
  \<^verbatim>\<open>unit_amount_cents\<close> is truthy (not \<open>0\<close>, not NaN) the product is that of the
  first mapping, in the order of the snapshot, with a non-null price-point list
  holding some \<open>p\<close> with \<open>|p - amount| \<le> max(1, p \<times> 0.05)\<close>.  When no mapping
  qualifies, or when the amount is falsy (the source then skips the price search),
  the product is that of the first mapping flagged primary, and the reference stays
  empty when there is none.  With the price point 1000 an item priced 1049 matches
  and an item priced 1051 does not: it goes to the primary mapping if there is one
  and stays unmatched otherwise.
\<close>

theorem attribution_first_match:
  "i < length its \<Longrightarrow>
   length (mapItemsToProducts its ms dc) = length its
   \<and> (num_truthy (unit_amount_cents (its ! i)) \<longrightarrow>
        (\<forall>j<length ms.
           price_match (ms ! j) (unit_amount_cents (its ! i))
           \<and> (\<forall>k<j. \<not> price_match (ms ! k) (unit_amount_cents (its ! i)))
           \<longrightarrow> mi_product_id (mapItemsToProducts its ms dc ! i) = Some (product_id (ms ! j))))
   \<and> (\<not> num_truthy (unit_amount_cents (its ! i))
        \<or> (\<forall>j<length ms. \<not> price_match (ms ! j) (unit_amount_cents (its ! i)))
      \<longrightarrow>
        (\<forall>j<length ms.
           is_primary (ms ! j) \<and> (\<forall>k<j. \<not> is_primary (ms ! k))
           \<longrightarrow> mi_product_id (mapItemsToProducts its ms dc ! i) = Some (product_id (ms ! j)))
        \<and> ((\<forall>j<length ms. \<not> is_primary (ms ! j))
           \<longrightarrow> mi_product_id (mapItemsToProducts its ms dc ! i) = None))
   \<and> within_tolerance (Fin 1000) (Fin 1049)
   \<and> \<not> within_tolerance (Fin 1000) (Fin 1051)
   \<and> map mi_product_id (mapItemsToProducts [item_priced (Fin 1049)] [mapping_A] dc) = [Some ''A'']
   \<and> map mi_product_id (mapItemsToProducts [item_priced (Fin 1051)] [mapping_A] dc) = [None]
   \<and> map mi_product_id (mapItemsToProducts [item_priced (Fin 1051)] [mapping_A, mapping_B] dc)
       = [Some ''B'']"
proof -
  assume i: "i < length its"
  let ?a = "unit_amount_cents (its ! i)"
  let ?out = "mapItemsToProducts its ms dc ! i"
  let ?P = "\<lambda>m. num_truthy ?a \<and> price_match m ?a"
  have pid: "mi_product_id ?out =
      (case find ?P ms of Some m \<Rightarrow> Some (product_id m)
       | None \<Rightarrow> map_option product_id (find is_primary ms))"
    by (simp add: mapItemsToProducts_nth [OF i])
  have matched: "mi_product_id ?out = Some (product_id (ms ! j))"
    if "num_truthy ?a" "j < length ms" "price_match (ms ! j) ?a"
      "\<forall>k<j. \<not> price_match (ms ! k) ?a" for j
  proof -
    have "find ?P ms = Some (ms ! j)"
      using that by (intro find_first_index) auto
    then show ?thesis by (simp add: pid)
  qed
  have unmatched: "find ?P ms = None"
    if "\<not> num_truthy ?a \<or> (\<forall>j<length ms. \<not> price_match (ms ! j) ?a)"
    using that by (intro find_none_index) auto
  have fallback: "mi_product_id ?out = Some (product_id (ms ! j))"
    if "\<not> num_truthy ?a \<or> (\<forall>j<length ms. \<not> price_match (ms ! j) ?a)"
      "j < length ms" "is_primary (ms ! j)" "\<forall>k<j. \<not> is_primary (ms ! k)" for j
  proof -
    have "find is_primary ms = Some (ms ! j)"
      using that(2-4) by (intro find_first_index) auto
    with unmatched [OF that(1)] show ?thesis by (simp add: pid)
  qed
  have empty: "mi_product_id ?out = None"
    if "\<not> num_truthy ?a \<or> (\<forall>j<length ms. \<not> price_match (ms ! j) ?a)"
      "\<forall>j<length ms. \<not> is_primary (ms ! j)"
  proof -
    have "find is_primary ms = None"
      using that(2) by (intro find_none_index) auto
    with unmatched [OF that(1)] show ?thesis by (simp add: pid)
  qed
  have near: "within_tolerance (Fin 1000) (Fin 1049)"
    by (rule tolerance_examples)
  have far: "\<not> within_tolerance (Fin 1000) (Fin 1051)"
    by (rule tolerance_examples)
  have ex1: "map mi_product_id (mapItemsToProducts [item_priced (Fin 1049)] [mapping_A] dc)
      = [Some ''A'']"
    by (simp add: mapItemsToProducts_def source_match_pred price_match_examples mapping_sel
        item_priced_def)
  have ex2: "map mi_product_id (mapItemsToProducts [item_priced (Fin 1051)] [mapping_A] dc)
      = [None]"
    by (simp add: mapItemsToProducts_def source_match_pred price_match_examples mapping_sel
        item_priced_def)
  have ex3: "map mi_product_id
      (mapItemsToProducts [item_priced (Fin 1051)] [mapping_A, mapping_B] dc) = [Some ''B'']"
    by (simp add: mapItemsToProducts_def source_match_pred price_match_examples mapping_sel
        item_priced_def)
  show ?thesis
    using mapItemsToProducts_length matched fallback empty near far ex1 ex2 ex3 by blast
qed

text \<open>
  The theorem at two items and the snapshot [A (price point 1000), B (primary)]:
  the item priced 1049 is attributed to A, the item priced 1051 to B.
\<close>

theorem attribution_first_match_witness:
  "(0::nat) < length [item_priced (Fin 1049), item_priced (Fin 1051)]
   \<and> num_truthy (unit_amount_cents (item_priced (Fin 1049)))
   \<and> price_match mapping_A (Fin 1049)
   \<and> mi_product_id
        (mapItemsToProducts [item_priced (Fin 1049), item_priced (Fin 1051)]
           [mapping_A, mapping_B] ''USD'' ! 0) = Some ''A''
   \<and> \<not> price_match mapping_A (Fin 1051) \<and> \<not> price_match mapping_B (Fin 1051)
   \<and> is_primary mapping_B \<and> \<not> is_primary mapping_A
   \<and> mi_product_id
        (mapItemsToProducts [item_priced (Fin 1049), item_priced (Fin 1051)]
           [mapping_A, mapping_B] ''USD'' ! 1) = Some ''B''"
  using attribution_first_match
      [of 0 "[item_priced (Fin 1049), item_priced (Fin 1051)]" "[mapping_A, mapping_B]" "''USD''"]
    attribution_first_match
      [of 1 "[item_priced (Fin 1049), item_priced (Fin 1051)]" "[mapping_A, mapping_B]" "''USD''"]
  by (simp add: mapItemsToProducts_def source_match_pred price_match_examples mapping_sel
      item_priced_def)

text \<open>
  C1 as the spec words it fails for a free item: the mapping F has the price point
  \<open>0\<close>, which is within tolerance of the amount \<open>0\<close>, yet the item is not
  attributed to F; it stays unmatched, or goes to the primary mapping B.
\<close>

theorem attribution_zero_amount_counterexample:
  "price_match mapping_free (unit_amount_cents (item_priced (Fin 0)))
   \<and> within_tolerance (Fin 0) (Fin 0)
   \<and> map mi_product_id (mapItemsToProducts [item_priced (Fin 0)] [mapping_free] ''USD'') = [None]
   \<and> map mi_product_id (mapItemsToProducts [item_priced (Fin 0)] [mapping_free, mapping_B] ''USD'')
       = [Some ''B'']"
  by (simp add: mapItemsToProducts_def source_match_pred price_match_examples mapping_sel
      tolerance_examples item_priced_def)

text \<open>
  C10.  \<open>mapItemsToProducts\<close> returns one output per input, in the same order,
  with \<^verbatim>\<open>name\<close>, \<^verbatim>\<open>quantity\<close>, \<^verbatim>\<open>unit_amount_cents\<close> and \<^verbatim>\<open>is_bump\<close> unchanged.
  Beside the added product reference, only the currency can differ: a currency
  that is there (a non-empty string) is kept, and an absent one (\<^verbatim>\<open>undefined\<close>, or
  the empty string, which \<^verbatim>\<open>||\<close> treats alike) becomes the default currency, or
  \<^verbatim>\<open>"USD"\<close> when the default is empty too.
\<close>

theorem mapItemsToProducts_frame:
  "length (mapItemsToProducts its ms dc) = length its
   \<and> (\<forall>i<length its.
        name (mapItemsToProducts its ms dc ! i) = name (its ! i)
        \<and> quantity (mapItemsToProducts its ms dc ! i) = quantity (its ! i)
        \<and> unit_amount_cents (mapItemsToProducts its ms dc ! i) = unit_amount_cents (its ! i)
        \<and> is_bump (mapItemsToProducts its ms dc ! i) = is_bump (its ! i)
        \<and> (\<forall>c. item_currency (its ! i) = Some c \<and> c \<noteq> [] \<longrightarrow>
               item_currency (mapItemsToProducts its ms dc ! i) = Some c)
        \<and> (item_currency (its ! i) = None \<or> item_currency (its ! i) = Some [] \<longrightarrow>
               item_currency (mapItemsToProducts its ms dc ! i)
                 = Some (if dc \<noteq> [] then dc else ''USD'')))"
  by (auto simp: mapItemsToProducts_length mapItemsToProducts_nth str_or_def)

text \<open>The theorem at two items, the second without a currency.\<close>

theorem mapItemsToProducts_frame_witness:
  "length (mapItemsToProducts [item_priced (Fin 1049), item_absent_currency] [mapping_A] ''EUR'') = 2
   \<and> (1::nat) < length [item_priced (Fin 1049), item_absent_currency]
   \<and> item_currency item_absent_currency = None
   \<and> map name (mapItemsToProducts [item_priced (Fin 1049), item_absent_currency] [mapping_A] ''EUR'')
       = [JStr ''Pro'', JStr ''Bump'']
   \<and> map quantity
        (mapItemsToProducts [item_priced (Fin 1049), item_absent_currency] [mapping_A] ''EUR'')
       = [Fin 1, Fin 3]
   \<and> map item_currency
        (mapItemsToProducts [item_priced (Fin 1049), item_absent_currency] [mapping_A] ''EUR'')
       = [Some ''USD'', Some ''EUR'']
   \<and> map item_currency
        (mapItemsToProducts [item_priced (Fin 1049), item_absent_currency] [mapping_A] [])
       = [Some ''USD'', Some ''USD'']"
  using mapItemsToProducts_frame
      [of "[item_priced (Fin 1049), item_absent_currency]" "[mapping_A]" "''EUR''"]
  by (simp add: mapItemsToProducts_def source_match_pred price_match_examples mapping_sel
      item_priced_def item_absent_currency_def str_or_def)

lemma find_in_set:
  assumes "\<exists>m\<in>set ms. P m"
  shows "\<exists>j<length ms. P (ms ! j) \<and> (\<forall>k<j. \<not> P (ms ! k)) \<and> find P ms = Some (ms ! j)"
proof (cases "find P ms")
  case None
  with assms show ?thesis by (auto simp: find_None_iff)
next
  case (Some m)
  then show ?thesis by (auto simp: find_Some_iff)
qed

text \<open>
  C6.  When the normalizer supplied no item and the snapshot has a primary
  mapping, exactly one item is synthesized: quantity 1, \<^verbatim>\<open>unit_amount_cents\<close> equal
  to the event's \<^verbatim>\<open>total_cents\<close>, attributed to the (first) primary product.  With
  no primary mapping nothing is synthesized, and when the normalizer supplied at
  least one item the result is the mapped items themselves, one per supplied item.
\<close>

theorem fallback_attribution:
  "(items ev = [] \<and> (\<exists>m\<in>set ms. is_primary m) \<longrightarrow>
      (\<exists>j<length ms. is_primary (ms ! j) \<and> (\<forall>k<j. \<not> is_primary (ms ! k))
         \<and> fetch_mapped_items ev ms =
             [\<lparr> name = JStr ''Order'', quantity = Fin 1, unit_amount_cents = total_cents ev,
                 item_currency = Some (str_or (currency ev) ''USD''), is_bump = Some False,
                 mi_product_id = Some (product_id (ms ! j)) \<rparr>]))
   \<and> (items ev = [] \<and> \<not> (\<exists>m\<in>set ms. is_primary m) \<longrightarrow> fetch_mapped_items ev ms = [])
   \<and> (items ev \<noteq> [] \<longrightarrow>
        fetch_mapped_items ev ms
          = mapItemsToProducts (items ev) ms (str_or (currency ev) ''USD'')
        \<and> length (fetch_mapped_items ev ms) = length (items ev))"
proof -
  have synth: "\<exists>j<length ms. is_primary (ms ! j) \<and> (\<forall>k<j. \<not> is_primary (ms ! k))
         \<and> fetch_mapped_items ev ms =
             [\<lparr> name = JStr ''Order'', quantity = Fin 1, unit_amount_cents = total_cents ev,
                 item_currency = Some (str_or (currency ev) ''USD''), is_bump = Some False,
                 mi_product_id = Some (product_id (ms ! j)) \<rparr>]"
    if none: "items ev = []" and prim: "\<exists>m\<in>set ms. is_primary m"
  proof -
    from find_in_set [OF prim] obtain j where j: "j < length ms" "is_primary (ms ! j)"
      "\<forall>k<j. \<not> is_primary (ms ! k)" "find is_primary ms = Some (ms ! j)"
      by blast
    from j(1) have "ms \<noteq> []" by auto
    with none j(4) have "fetch_mapped_items ev ms =
             [\<lparr> name = JStr ''Order'', quantity = Fin 1, unit_amount_cents = total_cents ev,
                 item_currency = Some (str_or (currency ev) ''USD''), is_bump = Some False,
                 mi_product_id = Some (product_id (ms ! j)) \<rparr>]"
      by (simp add: fetch_mapped_items_def mapItemsToProducts_def)
    with j show ?thesis by blast
  qed
  have no_primary: "fetch_mapped_items ev ms = []"
    if "items ev = []" "\<not> (\<exists>m\<in>set ms. is_primary m)"
  proof -
    from that(2) have "find is_primary ms = None" by (auto simp: find_None_iff)
    with that(1) show ?thesis
      by (simp add: fetch_mapped_items_def mapItemsToProducts_def)
  qed
  have kept: "fetch_mapped_items ev ms
          = mapItemsToProducts (items ev) ms (str_or (currency ev) ''USD'')
        \<and> length (fetch_mapped_items ev ms) = length (items ev)"
    if "items ev \<noteq> []"
  proof -
    from that have "mapItemsToProducts (items ev) ms (str_or (currency ev) ''USD'') \<noteq> []"
      using mapItemsToProducts_length [of "items ev" ms "str_or (currency ev) ''USD''"] by auto
    then show ?thesis
      by (simp add: fetch_mapped_items_def Let_def mapItemsToProducts_length)
  qed
  show ?thesis
  proof (intro conjI impI)
    assume "items ev = [] \<and> (\<exists>m\<in>set ms. is_primary m)"
    then show "\<exists>j<length ms. is_primary (ms ! j) \<and> (\<forall>k<j. \<not> is_primary (ms ! k))
         \<and> fetch_mapped_items ev ms =
             [\<lparr> name = JStr ''Order'', quantity = Fin 1, unit_amount_cents = total_cents ev,
                 item_currency = Some (str_or (currency ev) ''USD''), is_bump = Some False,
                 mi_product_id = Some (product_id (ms ! j)) \<rparr>]"
      using synth by blast
  next
    assume "items ev = [] \<and> \<not> (\<exists>m\<in>set ms. is_primary m)"
    then show "fetch_mapped_items ev ms = []"
      using no_primary by blast
  next
    assume "items ev \<noteq> []"
    then show "fetch_mapped_items ev ms
        = mapItemsToProducts (items ev) ms (str_or (currency ev) ''USD'')"
      using kept by blast
  next
    assume "items ev \<noteq> []"
    then show "length (fetch_mapped_items ev ms) = length (items ev)"
      using kept by blast
  qed
qed

text \<open>
  The theorem at an event without items: with the snapshot [A, B (primary)] one item
  of 5000 cents goes to B; with [A] alone nothing is synthesized.
\<close>

theorem fallback_attribution_witness:
  "items event_without_items = [] \<and> (\<exists>m\<in>set [mapping_A, mapping_B]. is_primary m)
   \<and> fetch_mapped_items event_without_items [mapping_A, mapping_B] =
       [\<lparr> name = JStr ''Order'', quantity = Fin 1, unit_amount_cents = Fin 5000,
           item_currency = Some ''EUR'', is_bump = Some False, mi_product_id = Some ''B'' \<rparr>]
   \<and> \<not> (\<exists>m\<in>set [mapping_A]. is_primary m)
   \<and> fetch_mapped_items event_without_items [mapping_A] = []
   \<and> items (event_without_items \<lparr> items := [item_priced (Fin 1049)] \<rparr>) \<noteq> []
   \<and> map mi_product_id
        (fetch_mapped_items (event_without_items \<lparr> items := [item_priced (Fin 1049)] \<rparr>)
           [mapping_A, mapping_B]) = [Some ''A'']"
  using fallback_attribution [of event_without_items "[mapping_A, mapping_B]"]
    fallback_attribution [of event_without_items "[mapping_A]"]
    fallback_attribution
      [of "event_without_items \<lparr> items := [item_priced (Fin 1049)] \<rparr>" "[mapping_A, mapping_B]"]
  by (simp add: fetch_mapped_items_def mapItemsToProducts_def source_match_pred
      price_match_examples mapping_sel event_without_items_def item_priced_def str_or_def)

section \<open>Normalized amounts\<close>

text \<open>
  C9, as the source has it.  For every paddle-like payload that the normalizer
  accepts, the amount is the first truthy value among \<^verbatim>\<open>sale_gross\<close>, \<^verbatim>\<open>total\<close> and
  \<^verbatim>\<open>amount\<close> (a field that is present but \<open>0\<close>, empty, \<^verbatim>\<open>false\<close> or \<^verbatim>\<open>null\<close> is
  passed over), and \<open>0\<close> when there is none.  With \<open>v\<close> the Number read from it,
  \<^verbatim>\<open>total_cents\<close> is \<open>round(100 \<times> v)\<close> when \<open>v < 1000\<close> and \<open>round(v \<times> 1)\<close>
  otherwise, each product being the product of doubles, rounded to the nearest
  double before \<^verbatim>\<open>Math.round\<close> sees it; \<open>v \<times> 1\<close> is \<open>v\<close> for a \<open>v\<close> that is a
  double, as every Number is, and then \<^verbatim>\<open>total_cents\<close> is the unit-scale rule applied
  to \<open>v\<close>.  The normalizer accepts the payload, that is, returns an event,
  whenever the conversions of the currency, of the amount and of the event id do
  not throw.
\<close>

theorem paddle_total_cents:
  "(\<forall>ev. normalizePaddleLoose h p = Inr ev \<longrightarrow>
      (\<exists>v. to_number h
              (first_truthy [get p ''sale_gross'', get p ''total'', get p ''amount''] (JNum (Fin 0)))
            = Inr v
          \<and> total_cents ev
              = (if js_lt v (Fin 1000) then js_round (js_mul (Fin 100) v)
                 else js_round (js_mul v (Fin 1)))
          \<and> (is_double v \<longrightarrow> total_cents ev = paddle_cents v)))
   \<and> ((\<exists>c. toUpperCase h (js_or (get p ''currency'') (JStr ''USD'')) = Inr c)
       \<and> (\<exists>v. to_number h
                 (first_truthy [get p ''sale_gross'', get p ''total'', get p ''amount'']
                    (JNum (Fin 0))) = Inr v)
       \<and> (\<exists>s. to_string h
                 (js_or (js_or (get p ''event_id'') (get p ''alert_id'')) (JStr (random_id h)))
               = Inr s)
      \<longrightarrow> (\<exists>ev. normalizePaddleLoose h p = Inr ev))"
proof (rule conjI)
  show "\<forall>ev. normalizePaddleLoose h p = Inr ev \<longrightarrow>
      (\<exists>v. to_number h
              (first_truthy [get p ''sale_gross'', get p ''total'', get p ''amount''] (JNum (Fin 0)))
            = Inr v
          \<and> total_cents ev
              = (if js_lt v (Fin 1000) then js_round (js_mul (Fin 100) v)
                 else js_round (js_mul v (Fin 1)))
          \<and> (is_double v \<longrightarrow> total_cents ev = paddle_cents v))"
  proof (rule allI, rule impI)
    fix ev
    assume "normalizePaddleLoose h p = Inr ev"
    then obtain v where
      v: "to_number h
            (first_truthy [get p ''sale_gross'', get p ''total'', get p ''amount''] (JNum (Fin 0)))
          = Inr v"
      and t: "total_cents ev
          = js_round (js_mul v (if js_lt v (Fin 1000) then Fin 100 else Fin 1))"
      by (auto simp: normalizePaddleLoose_def bindE_Inr_iff Let_def js_or_chain3)
    have code: "total_cents ev
        = (if js_lt v (Fin 1000) then js_round (js_mul (Fin 100) v)
           else js_round (js_mul v (Fin 1)))"
      using t by (simp add: js_mul_commute [of v "Fin 100"])
    have rule: "total_cents ev = paddle_cents v" if "is_double v"
      using code that by (simp add: paddle_cents_def js_mul_one)
    from v code rule
    show "\<exists>v. to_number h
              (first_truthy [get p ''sale_gross'', get p ''total'', get p ''amount''] (JNum (Fin 0)))
            = Inr v
          \<and> total_cents ev
              = (if js_lt v (Fin 1000) then js_round (js_mul (Fin 100) v)
                 else js_round (js_mul v (Fin 1)))
          \<and> (is_double v \<longrightarrow> total_cents ev = paddle_cents v)"
      by simp
  qed
next
  show "(\<exists>c. toUpperCase h (js_or (get p ''currency'') (JStr ''USD'')) = Inr c)
       \<and> (\<exists>v. to_number h
                 (first_truthy [get p ''sale_gross'', get p ''total'', get p ''amount'']
                    (JNum (Fin 0))) = Inr v)
       \<and> (\<exists>s. to_string h
                 (js_or (js_or (get p ''event_id'') (get p ''alert_id'')) (JStr (random_id h)))
               = Inr s)
      \<longrightarrow> (\<exists>ev. normalizePaddleLoose h p = Inr ev)"
    by (auto simp: normalizePaddleLoose_def Let_def js_or_chain3)
qed

lemma paddle_amounts:
  "to_number demo_host
      (first_truthy [get paddle_decimal ''sale_gross'', get paddle_decimal ''total'',
                     get paddle_decimal ''amount''] (JNum (Fin 0))) = Inr (Fin (25 / 2))"
  "to_number demo_host
      (first_truthy [get paddle_cents_already ''sale_gross'', get paddle_cents_already ''total'',
                     get paddle_cents_already ''amount''] (JNum (Fin 0))) = Inr (Fin 2500)"
  "to_number demo_host
      (first_truthy [get paddle_below_half ''sale_gross'', get paddle_below_half ''total'',
                     get paddle_below_half ''amount''] (JNum (Fin 0)))
     = Inr (Fin (2413647925293875 / 281474976710656))"
  "to_number demo_host
      (first_truthy [get paddle_at_half ''sale_gross'', get paddle_at_half ''total'',
                     get paddle_at_half ''amount''] (JNum (Fin 0)))
     = Inr (Fin (5021513584518103 / 4503599627370496))"
  by (simp_all add: paddle_decimal_def paddle_cents_already_def paddle_below_half_def
      paddle_at_half_def first_truthy_def demo_host_sel dec_eval double_eval)

lemma paddle_amounts_double:
  "is_double (Fin (25 / 2))"
  "is_double (Fin 2500)"
  "is_double (Fin (2413647925293875 / 281474976710656))"
  "is_double (Fin (5021513584518103 / 4503599627370496))"
  by (simp_all add: is_double_def double_eval)

lemma paddle_rule_examples:
  "paddle_cents (Fin (25 / 2)) = Fin 1250"
  "paddle_cents (Fin 2500) = Fin 2500"
  "paddle_cents (Fin (2413647925293875 / 281474976710656)) = Fin 857"
  "paddle_cents (Fin (5021513584518103 / 4503599627370496)) = Fin 112"
  by (simp_all add: paddle_cents_def double_eval)

lemma paddle_example_ids:
  "toUpperCase demo_host (js_or (get paddle_decimal ''currency'') (JStr ''USD'')) = Inr ''USD''"
  "to_string demo_host
     (js_or (js_or (get paddle_decimal ''event_id'') (get paddle_decimal ''alert_id''))
        (JStr (random_id demo_host))) = Inr ''a1''"
  by (simp_all add: paddle_decimal_def js_or_def demo_host_sel ascii_upper_def)

text \<open>
  The theorem at four payloads: \<^verbatim>\<open>{"alert_id": "a1", "sale_gross": "12.50"}\<close> gives
  1250 cents; \<^verbatim>\<open>{"alert_id": "a2", "amount": 2500}\<close> gives 2500;
  \<^verbatim>\<open>{"alert_id": "a3", "sale_gross": "8.575"}\<close> gives 857, the product of doubles
  being 857.4999999999999; \<^verbatim>\<open>{"alert_id": "a4", "sale_gross": 1.115}\<close> gives 112,
  the product of doubles being 111.5.
\<close>

theorem paddle_total_cents_witness:
  "toUpperCase demo_host (js_or (get paddle_decimal ''currency'') (JStr ''USD'')) = Inr ''USD''
   \<and> to_number demo_host
        (first_truthy [get paddle_decimal ''sale_gross'', get paddle_decimal ''total'',
                       get paddle_decimal ''amount''] (JNum (Fin 0))) = Inr (Fin (25 / 2))
   \<and> to_string demo_host
        (js_or (js_or (get paddle_decimal ''event_id'') (get paddle_decimal ''alert_id''))
           (JStr (random_id demo_host))) = Inr ''a1''
   \<and> is_double (Fin (25 / 2))
   \<and> map_sum id total_cents (normalizePaddleLoose demo_host paddle_decimal) = Inr (Fin 1250)
   \<and> map_sum id total_cents (normalizePaddleLoose demo_host paddle_cents_already) = Inr (Fin 2500)
   \<and> to_number demo_host
        (first_truthy [get paddle_below_half ''sale_gross'', get paddle_below_half ''total'',
                       get paddle_below_half ''amount''] (JNum (Fin 0)))
       = Inr (Fin (2413647925293875 / 281474976710656))
   \<and> map_sum id total_cents (normalizePaddleLoose demo_host paddle_below_half) = Inr (Fin 857)
   \<and> get paddle_at_half ''sale_gross'' = JNum (Fin (5021513584518103 / 4503599627370496))
   \<and> map_sum id total_cents (normalizePaddleLoose demo_host paddle_at_half) = Inr (Fin 112)"
proof -
  have ret: "\<exists>ev. normalizePaddleLoose demo_host paddle_decimal = Inr ev"
    using paddle_total_cents [of demo_host paddle_decimal]
    by (simp add: paddle_amounts paddle_example_ids)
  have tot: "map_sum id total_cents (normalizePaddleLoose demo_host q) = Inr (paddle_cents v)"
    if "normalizePaddleLoose demo_host q = Inr ev"
      "to_number demo_host
        (first_truthy [get q ''sale_gross'', get q ''total'', get q ''amount''] (JNum (Fin 0)))
       = Inr v" "is_double v" for q ev v
  proof -
    from paddle_total_cents [of demo_host q] that(1) obtain w where
      "to_number demo_host
        (first_truthy [get q ''sale_gross'', get q ''total'', get q ''amount''] (JNum (Fin 0)))
       = Inr w" "is_double w \<longrightarrow> total_cents ev = paddle_cents w"
      by blast
    with that show ?thesis
      by simp
  qed
  have r1: "\<exists>ev. normalizePaddleLoose demo_host paddle_cents_already = Inr ev"
    by (simp add: normalizePaddleLoose_def paddle_cents_already_def js_or_def demo_host_sel
        ascii_upper_def)
  have r2: "\<exists>ev. normalizePaddleLoose demo_host paddle_below_half = Inr ev"
    by (simp add: normalizePaddleLoose_def paddle_below_half_def js_or_def demo_host_sel
        ascii_upper_def)
  have r3: "\<exists>ev. normalizePaddleLoose demo_host paddle_at_half = Inr ev"
    by (simp add: normalizePaddleLoose_def paddle_at_half_def js_or_def demo_host_sel
        ascii_upper_def)
  have t0: "map_sum id total_cents (normalizePaddleLoose demo_host paddle_decimal)
      = Inr (Fin 1250)"
    using ret tot [OF _ paddle_amounts(1) paddle_amounts_double(1)]
    by (auto simp: paddle_rule_examples)
  have t1: "map_sum id total_cents (normalizePaddleLoose demo_host paddle_cents_already)
      = Inr (Fin 2500)"
    using r1 tot [OF _ paddle_amounts(2) paddle_amounts_double(2)]
    by (auto simp: paddle_rule_examples)
  have t2: "map_sum id total_cents (normalizePaddleLoose demo_host paddle_below_half)
      = Inr (Fin 857)"
    using r2 tot [OF _ paddle_amounts(3) paddle_amounts_double(3)]
    by (auto simp: paddle_rule_examples)
  have t3: "map_sum id total_cents (normalizePaddleLoose demo_host paddle_at_half)
      = Inr (Fin 112)"
    using r3 tot [OF _ paddle_amounts(4) paddle_amounts_double(4)]
    by (auto simp: paddle_rule_examples)
  have g: "get paddle_at_half ''sale_gross'' = JNum (Fin (5021513584518103 / 4503599627370496))"
    by (simp add: paddle_at_half_def double_eval)
  from t0 t1 t2 t3 g show ?thesis
    by (simp add: paddle_amounts paddle_amounts_double paddle_example_ids)
qed

text \<open>
  C9 as the spec words it (``first present wins'') fails at
  \<^verbatim>\<open>{"alert_id": "a1", "sale_gross": 0, "total": 50}\<close>: \<^verbatim>\<open>sale_gross\<close> is present, and
  the rule applied to it gives \<open>0\<close>, but the source passes over the \<open>0\<close>, reads
  \<^verbatim>\<open>total\<close> and stores 5000.
\<close>

theorem paddle_present_zero_counterexample:
  "get paddle_zero_gross ''sale_gross'' = JNum (Fin 0)
   \<and> paddle_cents (Fin 0) = Fin 0
   \<and> map_sum id total_cents (normalizePaddleLoose demo_host paddle_zero_gross) = Inr (Fin 5000)"
  by (simp add: paddle_zero_gross_def normalizePaddleLoose_def paddle_cents_def js_or_def
      demo_host_sel ascii_upper_def double_eval)

lemma shopify_item_Inr:
  assumes "shopify_item h cur li = Inr it"
  shows "(\<exists>pr. to_number h (get li ''price'') = Inr pr
            \<and> unit_amount_cents it = shopify_unit_cents pr)
       \<and> (\<not> truthy (get li ''quantity'') \<longrightarrow> quantity it = Fin 1)
       \<and> (\<forall>n. get li ''quantity'' = JNum n \<and> num_truthy n \<longrightarrow> quantity it = n)
       \<and> (\<forall>s. get li ''quantity'' = JStr s \<and> s \<noteq> [] \<and> str_to_num h s \<noteq> NaN
              \<longrightarrow> quantity it = str_to_num h s)"
proof -
  from assms obtain q pr where
    q: "to_number h (js_or (get li ''quantity'') (JNum (Fin 1))) = Inr q"
    and pr: "to_number h (get li ''price'') = Inr pr"
    and it: "it = \<lparr> name = get li ''title'', quantity = q,
        unit_amount_cents = num_or (js_round (js_mul pr (Fin 100))) (Fin 0),
        item_currency = Some cur, is_bump = None \<rparr>"
    by (auto simp: shopify_item_def bindE_Inr_iff get_strict_def split: if_splits)
  have "num_or (js_round (js_mul pr (Fin 100))) (Fin 0) = shopify_unit_cents pr"
    by (cases "js_round (js_mul pr (Fin 100))")
      (auto simp: num_or_def shopify_unit_cents_def js_mul_commute [of pr "Fin 100"])
  with q pr it show ?thesis
    by (auto simp: js_or_def split: if_splits)
qed

lemma shopify_item_total:
  assumes "li \<noteq> JNull" "li \<noteq> JUndef"
    "\<exists>q. to_number h (js_or (get li ''quantity'') (JNum (Fin 1))) = Inr q"
    "\<exists>pr. to_number h (get li ''price'') = Inr pr"
  shows "\<exists>it. shopify_item h cur li = Inr it"
  using assms by (auto simp: shopify_item_def get_strict_def)

text \<open>
  C5, as the source has it.  For every shopify-like payload that the normalizer
  accepts: the total is read from the first truthy value of \<^verbatim>\<open>total_price\<close> and
  \<^verbatim>\<open>subtotal_price\<close> (\<open>0\<close> when neither is truthy, so a \<^verbatim>\<open>total_price\<close> that is
  present but \<open>0\<close> or empty is passed over), and \<^verbatim>\<open>total_cents\<close> is
  \<open>round(100 \<times>\<close> that Number\<open>)\<close>; each element of a \<^verbatim>\<open>line_items\<close> array gives one
  item, in order, whose \<^verbatim>\<open>unit_amount_cents\<close> is \<open>round(100 \<times> price)\<close>, or \<open>0\<close> when
  that is NaN; the products are products of doubles, rounded to the nearest double
  before \<^verbatim>\<open>Math.round\<close> sees them.  An item's quantity is \<open>1\<close> when the source
  quantity is absent or falsy (\<^verbatim>\<open>null\<close>, \<open>0\<close>, the empty string), and is the source
  quantity itself when that is a non-zero number or a string that reads as a
  number.  The normalizer accepts the payload, that is, returns an event, whenever
  no line item is \<^verbatim>\<open>null\<close> and the conversions of currency, amounts and id do not
  throw; it throws when a line item is \<^verbatim>\<open>null\<close>.
\<close>

theorem shopify_normalized:
  "(\<forall>ev. normalizeShopifyLoose h p = Inr ev \<longrightarrow>
      (\<exists>v. to_number h
              (first_truthy [get p ''total_price'', get p ''subtotal_price''] (JNum (Fin 0)))
            = Inr v
          \<and> total_cents ev = js_round (js_mul (Fin 100) v))
      \<and> length (items ev) = length (line_items_of p)
      \<and> (\<forall>i<length (line_items_of p).
            (\<exists>pr. to_number h (get (line_items_of p ! i) ''price'') = Inr pr
                 \<and> unit_amount_cents (items ev ! i) = shopify_unit_cents pr)
            \<and> (\<not> truthy (get (line_items_of p ! i) ''quantity'')
                 \<longrightarrow> quantity (items ev ! i) = Fin 1)
            \<and> (\<forall>n. get (line_items_of p ! i) ''quantity'' = JNum n \<and> num_truthy n
                 \<longrightarrow> quantity (items ev ! i) = n)
            \<and> (\<forall>s. get (line_items_of p ! i) ''quantity'' = JStr s \<and> s \<noteq> []
                     \<and> str_to_num h s \<noteq> NaN
                 \<longrightarrow> quantity (items ev ! i) = str_to_num h s)))
   \<and> ((\<exists>c. toUpperCase h (js_or (get p ''currency'') (JStr ''USD'')) = Inr c)
       \<and> (\<exists>v. to_number h
                 (first_truthy [get p ''total_price'', get p ''subtotal_price''] (JNum (Fin 0)))
               = Inr v)
       \<and> (\<forall>li\<in>set (line_items_of p).
             li \<noteq> JNull \<and> li \<noteq> JUndef
             \<and> (\<exists>q. to_number h (js_or (get li ''quantity'') (JNum (Fin 1))) = Inr q)
             \<and> (\<exists>pr. to_number h (get li ''price'') = Inr pr))
       \<and> (\<exists>s. to_string h (js_or (get p ''id'') (JStr (random_id h))) = Inr s)
      \<longrightarrow> (\<exists>ev. normalizeShopifyLoose h p = Inr ev))
   \<and> (JNull \<in> set (line_items_of p) \<longrightarrow> (\<exists>e. normalizeShopifyLoose h p = Inl e))"
proof (intro conjI)
  show "\<forall>ev. normalizeShopifyLoose h p = Inr ev \<longrightarrow>
      (\<exists>v. to_number h
              (first_truthy [get p ''total_price'', get p ''subtotal_price''] (JNum (Fin 0)))
            = Inr v
          \<and> total_cents ev = js_round (js_mul (Fin 100) v))
      \<and> length (items ev) = length (line_items_of p)
      \<and> (\<forall>i<length (line_items_of p).
            (\<exists>pr. to_number h (get (line_items_of p ! i) ''price'') = Inr pr
                 \<and> unit_amount_cents (items ev ! i) = shopify_unit_cents pr)
            \<and> (\<not> truthy (get (line_items_of p ! i) ''quantity'')
                 \<longrightarrow> quantity (items ev ! i) = Fin 1)
            \<and> (\<forall>n. get (line_items_of p ! i) ''quantity'' = JNum n \<and> num_truthy n
                 \<longrightarrow> quantity (items ev ! i) = n)
            \<and> (\<forall>s. get (line_items_of p ! i) ''quantity'' = JStr s \<and> s \<noteq> []
                     \<and> str_to_num h s \<noteq> NaN
                 \<longrightarrow> quantity (items ev ! i) = str_to_num h s))"
  proof (rule allI, rule impI)
    fix ev
    assume ret: "normalizeShopifyLoose h p = Inr ev"
    then obtain cur v its where
      v: "to_number h
            (first_truthy [get p ''total_price'', get p ''subtotal_price''] (JNum (Fin 0)))
          = Inr v"
      and its: "(case get p ''line_items'' of JArr lis \<Rightarrow> mapE (shopify_item h cur) lis
                 | _ \<Rightarrow> Inr []) = Inr its"
      and tot: "total_cents ev = js_round (js_mul v (Fin 100))"
      and evi: "items ev = its"
      by (auto simp: normalizeShopifyLoose_def bindE_Inr_iff js_or_chain2)
    from its have m: "mapE (shopify_item h cur) (line_items_of p) = Inr its"
      by (auto simp: line_items_of_def split: json.splits)
    from mapE_nth [OF m] have len: "length its = length (line_items_of p)"
      and each: "\<And>i. i < length (line_items_of p) \<Longrightarrow>
          shopify_item h cur (line_items_of p ! i) = Inr (its ! i)"
      by auto
    have total: "\<exists>v. to_number h
              (first_truthy [get p ''total_price'', get p ''subtotal_price''] (JNum (Fin 0)))
            = Inr v
          \<and> total_cents ev = js_round (js_mul (Fin 100) v)"
      using v tot by (simp add: js_mul_commute [of v "Fin 100"])
    have per_item: "\<forall>i<length (line_items_of p).
            (\<exists>pr. to_number h (get (line_items_of p ! i) ''price'') = Inr pr
                 \<and> unit_amount_cents (items ev ! i) = shopify_unit_cents pr)
            \<and> (\<not> truthy (get (line_items_of p ! i) ''quantity'')
                 \<longrightarrow> quantity (items ev ! i) = Fin 1)
            \<and> (\<forall>n. get (line_items_of p ! i) ''quantity'' = JNum n \<and> num_truthy n
                 \<longrightarrow> quantity (items ev ! i) = n)
            \<and> (\<forall>s. get (line_items_of p ! i) ''quantity'' = JStr s \<and> s \<noteq> []
                     \<and> str_to_num h s \<noteq> NaN
                 \<longrightarrow> quantity (items ev ! i) = str_to_num h s)"
    proof (rule allI, rule impI)
      fix i
      assume "i < length (line_items_of p)"
      from shopify_item_Inr [OF each [OF this]]
      show "(\<exists>pr. to_number h (get (line_items_of p ! i) ''price'') = Inr pr
                 \<and> unit_amount_cents (items ev ! i) = shopify_unit_cents pr)
            \<and> (\<not> truthy (get (line_items_of p ! i) ''quantity'')
                 \<longrightarrow> quantity (items ev ! i) = Fin 1)
            \<and> (\<forall>n. get (line_items_of p ! i) ''quantity'' = JNum n \<and> num_truthy n
                 \<longrightarrow> quantity (items ev ! i) = n)
            \<and> (\<forall>s. get (line_items_of p ! i) ''quantity'' = JStr s \<and> s \<noteq> []
                     \<and> str_to_num h s \<noteq> NaN
                 \<longrightarrow> quantity (items ev ! i) = str_to_num h s)"
        by (simp add: evi)
    qed
    from total len evi per_item
    show "(\<exists>v. to_number h
              (first_truthy [get p ''total_price'', get p ''subtotal_price''] (JNum (Fin 0)))
            = Inr v
          \<and> total_cents ev = js_round (js_mul (Fin 100) v))
      \<and> length (items ev) = length (line_items_of p)
      \<and> (\<forall>i<length (line_items_of p).
            (\<exists>pr. to_number h (get (line_items_of p ! i) ''price'') = Inr pr
                 \<and> unit_amount_cents (items ev ! i) = shopify_unit_cents pr)
            \<and> (\<not> truthy (get (line_items_of p ! i) ''quantity'')
                 \<longrightarrow> quantity (items ev ! i) = Fin 1)
            \<and> (\<forall>n. get (line_items_of p ! i) ''quantity'' = JNum n \<and> num_truthy n
                 \<longrightarrow> quantity (items ev ! i) = n)
            \<and> (\<forall>s. get (line_items_of p ! i) ''quantity'' = JStr s \<and> s \<noteq> []
                     \<and> str_to_num h s \<noteq> NaN
                 \<longrightarrow> quantity (items ev ! i) = str_to_num h s))"
      by simp
  qed
next
  show "(\<exists>c. toUpperCase h (js_or (get p ''currency'') (JStr ''USD'')) = Inr c)
       \<and> (\<exists>v. to_number h
                 (first_truthy [get p ''total_price'', get p ''subtotal_price''] (JNum (Fin 0)))
               = Inr v)
       \<and> (\<forall>li\<in>set (line_items_of p).
             li \<noteq> JNull \<and> li \<noteq> JUndef
             \<and> (\<exists>q. to_number h (js_or (get li ''quantity'') (JNum (Fin 1))) = Inr q)
             \<and> (\<exists>pr. to_number h (get li ''price'') = Inr pr))
       \<and> (\<exists>s. to_string h (js_or (get p ''id'') (JStr (random_id h))) = Inr s)
      \<longrightarrow> (\<exists>ev. normalizeShopifyLoose h p = Inr ev)"
  proof (rule impI, elim conjE exE)
    fix c v s
    assume c: "toUpperCase h (js_or (get p ''currency'') (JStr ''USD'')) = Inr c"
      and v: "to_number h
                (first_truthy [get p ''total_price'', get p ''subtotal_price''] (JNum (Fin 0)))
              = Inr v"
      and lis: "\<forall>li\<in>set (line_items_of p).
             li \<noteq> JNull \<and> li \<noteq> JUndef
             \<and> (\<exists>q. to_number h (js_or (get li ''quantity'') (JNum (Fin 1))) = Inr q)
             \<and> (\<exists>pr. to_number h (get li ''price'') = Inr pr)"
      and s: "to_string h (js_or (get p ''id'') (JStr (random_id h))) = Inr s"
    have "\<forall>li\<in>set (line_items_of p). \<exists>it. shopify_item h c li = Inr it"
    proof (rule ballI)
      fix li
      assume "li \<in> set (line_items_of p)"
      with lis have "li \<noteq> JNull" "li \<noteq> JUndef"
        "\<exists>q. to_number h (js_or (get li ''quantity'') (JNum (Fin 1))) = Inr q"
        "\<exists>pr. to_number h (get li ''price'') = Inr pr"
        by simp_all
      then show "\<exists>it. shopify_item h c li = Inr it"
        by (rule shopify_item_total)
    qed
    from mapE_total [OF this] obtain its where
      "mapE (shopify_item h c) (line_items_of p) = Inr its" by (elim exE)
    then have its: "(case get p ''line_items'' of JArr lis \<Rightarrow> mapE (shopify_item h c) lis
                 | _ \<Rightarrow> Inr []) = Inr (if is_array (get p ''line_items'') then its else [])"
      by (simp add: line_items_of_def split: json.splits)
    show "\<exists>ev. normalizeShopifyLoose h p = Inr ev"
      by (simp add: normalizeShopifyLoose_def js_or_chain2 c v its s)
  qed
next
  show "JNull \<in> set (line_items_of p) \<longrightarrow> (\<exists>e. normalizeShopifyLoose h p = Inl e)"
  proof (rule impI)
    assume n: "JNull \<in> set (line_items_of p)"
    have thrown: "\<exists>e. (case get p ''line_items'' of JArr lis \<Rightarrow> mapE (shopify_item h c) lis
                 | _ \<Rightarrow> Inr []) = Inl e" for c
    proof -
      have "shopify_item h c JNull = Inl TypeError"
        by (simp add: shopify_item_def get_strict_def)
      from mapE_error [where f = "shopify_item h c", OF n this] obtain e where
        "mapE (shopify_item h c) (line_items_of p) = Inl e" by (elim exE)
      then have "(case get p ''line_items'' of JArr lis \<Rightarrow> mapE (shopify_item h c) lis
                 | _ \<Rightarrow> Inr []) = Inl e"
        using n by (auto simp: line_items_of_def split: json.splits)
      then show ?thesis
        by (rule exI)
    qed
    show "\<exists>e. normalizeShopifyLoose h p = Inl e"
    proof (cases "toUpperCase h (js_or (get p ''currency'') (JStr ''USD''))")
      case (Inl e)
      then show ?thesis
        by (simp add: normalizeShopifyLoose_def)
    next
      case c: (Inr c)
      show ?thesis
      proof (cases "to_number h
              (js_or (js_or (get p ''total_price'') (get p ''subtotal_price'')) (JNum (Fin 0)))")
        case (Inl e)
        with c show ?thesis
          by (simp add: normalizeShopifyLoose_def)
      next
        case v: (Inr v)
        from thrown [of c] obtain e where
          "(case get p ''line_items'' of JArr lis \<Rightarrow> mapE (shopify_item h c) lis
                 | _ \<Rightarrow> Inr []) = Inl e" by (elim exE)
        with c v show ?thesis
          by (simp add: normalizeShopifyLoose_def)
      qed
    qed
  qed
qed

lemma shopify_order_parts:
  "toUpperCase demo_host (js_or (get shopify_order ''currency'') (JStr ''USD'')) = Inr ''USD''"
  "to_number demo_host
      (first_truthy [get shopify_order ''total_price'', get shopify_order ''subtotal_price'']
         (JNum (Fin 0))) = Inr (Fin (7034059667999293 / 281474976710656))"
  "line_items_of shopify_order =
      [JObj [(''title'', JStr ''Shirt''), (''price'', JStr ''19.99''),
             (''quantity'', JNum (Fin 2))],
       JObj [(''title'', JStr ''Sticker''), (''price'', JStr ''1.005'')]]"
  "to_string demo_host (js_or (get shopify_order ''id'') (JStr (random_id demo_host)))
     = Inr ''o1''"
  by (simp_all add: shopify_order_def line_items_of_def first_truthy_def js_or_def
      demo_host_sel ascii_upper_def dec_eval double_eval)

lemma shopify_order_prices:
  "dec_num ''19.99'' = Fin (5626684784446013 / 281474976710656)"
  "dec_num ''1.005'' = Fin (1131529406376837 / 1125899906842624)"
  "dec_num ''24.99'' = Fin (7034059667999293 / 281474976710656)"
  by (simp_all add: dec_eval double_eval)

lemma shopify_order_event:
  "map_sum id
      (\<lambda>ev. (total_cents ev, map unit_amount_cents (items ev), map quantity (items ev)))
      (normalizeShopifyLoose demo_host shopify_order)
     = Inr (Fin 2499, [Fin 1999, Fin 100], [Fin 2, Fin 1])"
  by (simp add: shopify_order_def normalizeShopifyLoose_def shopify_item_def get_strict_def
      js_or_def num_or_def demo_host_sel ascii_upper_def shopify_order_prices double_eval)

text \<open>
  The theorem at an order of two line items, ``Shirt'' at \<^verbatim>\<open>"19.99"\<close> with quantity
  2 and ``Sticker'' at \<^verbatim>\<open>"1.005"\<close> with no quantity, and \<^verbatim>\<open>total_price\<close> \<^verbatim>\<open>"24.99"\<close>:
  the amounts are 1999 and 100 (the double nearest to 1.005 times 100 is
  100.49999999999999) and the total is 2499.  At the order
  \<^verbatim>\<open>{"total_price": 5, "line_items": [null]}\<close> the normalizer throws.
\<close>

theorem shopify_normalized_witness:
  "toUpperCase demo_host (js_or (get shopify_order ''currency'') (JStr ''USD'')) = Inr ''USD''
   \<and> to_number demo_host
        (first_truthy [get shopify_order ''total_price'', get shopify_order ''subtotal_price'']
           (JNum (Fin 0))) = Inr (Fin (7034059667999293 / 281474976710656))
   \<and> line_items_of shopify_order =
        [JObj [(''title'', JStr ''Shirt''), (''price'', JStr ''19.99''),
               (''quantity'', JNum (Fin 2))],
         JObj [(''title'', JStr ''Sticker''), (''price'', JStr ''1.005'')]]
   \<and> to_string demo_host (js_or (get shopify_order ''id'') (JStr (random_id demo_host)))
       = Inr ''o1''
   \<and> map_sum id
        (\<lambda>ev. (total_cents ev, map unit_amount_cents (items ev), map quantity (items ev)))
        (normalizeShopifyLoose demo_host shopify_order)
       = Inr (Fin 2499, [Fin 1999, Fin 100], [Fin 2, Fin 1])
   \<and> line_items_of shopify_null_item = [JNull]
   \<and> normalizeShopifyLoose demo_host shopify_null_item = Inl TypeError"
proof -
  have ret: "\<exists>ev. normalizeShopifyLoose demo_host shopify_order = Inr ev"
    by (rule mp [OF conjunct1 [OF conjunct2 [OF shopify_normalized [of demo_host shopify_order]]]])
      (simp add: shopify_order_parts demo_host_sel(1) shopify_order_prices js_or_truthy
        js_or_falsy)
  have li: "line_items_of shopify_null_item = [JNull]"
    by (simp add: shopify_null_item_def line_items_of_def)
  have "\<exists>e. normalizeShopifyLoose demo_host shopify_null_item = Inl e"
    by (rule mp [OF conjunct2 [OF conjunct2
            [OF shopify_normalized [of demo_host shopify_null_item]]]])
      (simp add: li)
  then have thrown: "normalizeShopifyLoose demo_host shopify_null_item = Inl TypeError"
    by (simp add: shopify_null_item_def normalizeShopifyLoose_def shopify_item_def
        get_strict_def js_or_def demo_host_sel ascii_upper_def)
  from ret li thrown show ?thesis
    by (simp add: shopify_order_parts shopify_order_event)
qed

text \<open>
  C5 as the spec words it fails at an order with \<^verbatim>\<open>total_price\<close> 0,
  \<^verbatim>\<open>subtotal_price\<close> 5 and a line item of quantity \<^verbatim>\<open>"abc"\<close>: \<^verbatim>\<open>total_price\<close> is
  present, so the spec's total is \<open>0\<close>, but the source passes over the \<open>0\<close>, reads
  \<^verbatim>\<open>subtotal_price\<close> and stores 500; the quantity is not numeric, so the spec's
  quantity is \<open>1\<close>, but the source stores NaN.
\<close>

theorem shopify_defaults_counterexample:
  "get shopify_odd ''total_price'' = JNum (Fin 0)
   \<and> get (line_items_of shopify_odd ! 0) ''quantity'' = JStr ''abc''
   \<and> map_sum id (\<lambda>ev. (total_cents ev, map quantity (items ev)))
        (normalizeShopifyLoose demo_host shopify_odd)
       = Inr (Fin 500, [NaN])"
  by (simp add: shopify_odd_def normalizeShopifyLoose_def shopify_item_def get_strict_def
      line_items_of_def js_or_def num_or_def demo_host_sel ascii_upper_def
      shopify_order_prices dec_eval double_eval)
section \<open>Validation\<close>

lemma age_days_iff:
  "MAX_EVENT_AGE_DAYS < (of_int (now - t) :: rat) / (1000 * 60 * 60 * 24)
     \<longleftrightarrow> 7 * day_ms < now - t"
proof -
  have "(7 :: rat) < of_int (now - t) / 86400000 \<longleftrightarrow> (7 :: rat) * 86400000 < of_int (now - t)"
    by (simp add: pos_less_divide_eq)
  also have "\<dots> \<longleftrightarrow> (of_int (7 * 86400000) :: rat) < of_int (now - t)"
    by simp
  also have "\<dots> \<longleftrightarrow> 7 * 86400000 < now - t"
    by (simp only: of_int_less_iff)
  finally show ?thesis
    by (simp add: MAX_EVENT_AGE_DAYS_def day_ms_def)
qed

lemma time_sanity_cases:
  "time_sanity h ev =
     (case Date_parse h (js_or (event_time ev) (JStr [])) of
        Inl e \<Rightarrow> Inl (Uncaught e)
      | Inr None \<Rightarrow> Inr ()
      | Inr (Some t) \<Rightarrow>
          if 7 * day_ms < now_ms h - t then Inl (Reply 422 ''Event too old'') else Inr ())"
  unfolding time_sanity_def Let_def age_days_iff
  by (simp add: try_catch_def bindE_def split: sum.splits option.splits)

lemma fetch_validate_stages:
  "fetch_validate h p =
     (case basic_validation h p of
        Inl r \<Rightarrow> Inl r
      | Inr u \<Rightarrow>
         (case detectAndNormalize h p of
            Inl e \<Rightarrow> Inl (Uncaught e)
          | Inr None \<Rightarrow> Inl (Reply 400 ''Unsupported payload'')
          | Inr (Some ev) \<Rightarrow>
             (case time_sanity h ev of
                Inl r \<Rightarrow> Inl r
              | Inr u \<Rightarrow>
                 (case validate_deep ev of
                    Inl r \<Rightarrow> Inl r
                  | Inr u \<Rightarrow>
                     (case bindE (new_date h (js_or (event_time ev) (JStr (now_iso h))))
                             (toISOString h) of
                        Inl e \<Rightarrow> Inl (Uncaught e)
                      | Inr s \<Rightarrow> Inr (ev, s))))))"
  by (simp add: fetch_validate_def bindE_def try_catch_def split: sum.splits option.splits)

text \<open>
  C2, as the source has it.  The handler checks in this order, and the first
  failing check decides the answer: (1) the basic validation of the raw payload
  (an object, \<^verbatim>\<open>items\<close> an array of at most 100 elements, the four raw cents
  fields integers within the cap); (2) detection and normalization (an exception
  is answered 500, no shape 400 ``Unsupported payload''); (3) staleness; (4) the
  item count and the items of the normalized event; (5) its \<^verbatim>\<open>total_cents\<close>.  So
  staleness is checked before the items: an event whose time \<^verbatim>\<open>Date.parse\<close> reads
  as an instant more than seven days before now is answered 422 ``Event too old''
  whatever its items are.  Within step (4), more than 100 items are refused before
  any item is looked at, and a failing item decides before the total does.
\<close>

theorem validation_order:
  "(\<forall>r. basic_validation h p = Inl r \<longrightarrow> fetch_validate h p = Inl r)
   \<and> (basic_validation h p = Inr () \<longrightarrow>
        (\<forall>e. detectAndNormalize h p = Inl e \<longrightarrow> fetch_validate h p = Inl (Uncaught e))
        \<and> (detectAndNormalize h p = Inr None \<longrightarrow>
             fetch_validate h p = Inl (Reply 400 ''Unsupported payload''))
        \<and> (\<forall>ev. detectAndNormalize h p = Inr (Some ev) \<longrightarrow>
              (\<forall>r. time_sanity h ev = Inl r \<longrightarrow> fetch_validate h p = Inl r)
              \<and> (\<forall>t. Date_parse h (js_or (event_time ev) (JStr [])) = Inr (Some t)
                       \<and> 7 * day_ms < now_ms h - t
                     \<longrightarrow> fetch_validate h p = Inl (Reply 422 ''Event too old''))
              \<and> (time_sanity h ev = Inr () \<longrightarrow>
                   (\<forall>r. validate_deep ev = Inl r \<longrightarrow> fetch_validate h p = Inl r))))
   \<and> (MAX_ITEMS < length (items ev') \<longrightarrow> validate_deep ev' = Inl (Reply 400 ''Too many items''))
   \<and> (length (items ev') \<le> MAX_ITEMS \<longrightarrow>
        (\<forall>r. validate_items (items ev') = Inl r \<longrightarrow> validate_deep ev' = Inl r))"
proof -
  have stale: "fetch_validate h p = Inl (Reply 422 ''Event too old'')"
    if "basic_validation h p = Inr ()" "detectAndNormalize h p = Inr (Some ev)"
      "Date_parse h (js_or (event_time ev) (JStr [])) = Inr (Some t)"
      "7 * day_ms < now_ms h - t" for ev t
    using that by (simp add: fetch_validate_stages time_sanity_cases)
  have many: "validate_deep ev' = Inl (Reply 400 ''Too many items'')"
    if "MAX_ITEMS < length (items ev')"
    using that by (auto simp: validate_deep_def)
  have item: "validate_deep ev' = Inl r"
    if "length (items ev') \<le> MAX_ITEMS" "validate_items (items ev') = Inl r" for r
    using that by (cases "items ev'") (auto simp: validate_deep_def)
  show ?thesis
    using stale many item
    by (simp add: fetch_validate_stages)
qed

text \<open>
  The theorem at a shopify order whose line item has quantity 2000: dated eight
  days back it is refused as too old; dated six days back it is refused for the
  quantity; with quantity 2 it is accepted.
\<close>

theorem validation_order_witness:
  "basic_validation demo_host (shopify_dated ''2024-01-07T00:00:00.000Z'' (Fin 2000)) = Inr ()
   \<and> map_sum id (map_option event_time)
        (detectAndNormalize demo_host (shopify_dated ''2024-01-07T00:00:00.000Z'' (Fin 2000)))
       = Inr (Some (JStr ''2024-01-07T00:00:00.000Z''))
   \<and> Date_parse demo_host (js_or (JStr ''2024-01-07T00:00:00.000Z'') (JStr []))
       = Inr (Some (now_ms demo_host - 8 * day_ms))
   \<and> 7 * day_ms < now_ms demo_host - (now_ms demo_host - 8 * day_ms)
   \<and> fetch_validate demo_host (shopify_dated ''2024-01-07T00:00:00.000Z'' (Fin 2000))
       = Inl (Reply 422 ''Event too old'')
   \<and> fetch_validate demo_host (shopify_dated ''2024-01-09T00:00:00.000Z'' (Fin 2000))
       = Inl (Reply 400 ''Invalid quantity'')
   \<and> accepted_items (fetch_validate demo_host (shopify_dated ''2024-01-09T00:00:00.000Z'' (Fin 2)))
       = Inr [(Fin 2, Fin 1000)]"
  using validation_order [of demo_host "shopify_dated ''2024-01-07T00:00:00.000Z'' (Fin 2000)"]
  by (simp add: fetch_validate_stages basic_validation_def centsKeys_def detect_unfold
      stripe_signal_def paddle_signal_def lemon_signal_def shopify_signal_def selected_def
      shopify_dated_def normalizeShopifyLoose_def shopify_item_def get_strict_def
      time_sanity_cases Date_parse_def validate_deep_def MAX_ITEMS_def MAX_CENTS_def
      js_or_def num_or_def js_gt_def toISOString_def accepted_items_def
      demo_host_sel demo_instants_def ascii_upper_def day_ms_def double_eval)

text \<open>
  C2 as the spec words it fails at the shopify order dated eight days back with
  quantity 2000: its normalized event fails the item check (``Invalid quantity''),
  yet the handler's answer is the staleness reason.
\<close>

theorem stale_before_items_counterexample:
  "fetch_validate demo_host (shopify_dated ''2024-01-07T00:00:00.000Z'' (Fin 2000))
     = Inl (Reply 422 ''Event too old'')
   \<and> map_sum id (map_option validate_deep)
        (detectAndNormalize demo_host (shopify_dated ''2024-01-07T00:00:00.000Z'' (Fin 2000)))
       = Inr (Some (Inl (Reply 400 ''Invalid quantity'')))"
  by (simp add: fetch_validate_stages basic_validation_def centsKeys_def detect_unfold
      stripe_signal_def paddle_signal_def lemon_signal_def shopify_signal_def selected_def
      shopify_dated_def normalizeShopifyLoose_def shopify_item_def get_strict_def
      time_sanity_cases Date_parse_def validate_deep_def MAX_ITEMS_def MAX_CENTS_def
      js_or_def num_or_def js_gt_def
      demo_host_sel demo_instants_def ascii_upper_def day_ms_def double_eval)

lemma paddle_dated_detect:
  "truthy t \<Longrightarrow>
   detectAndNormalize demo_host (paddle_dated t) = Inr (Some (paddle_dated_event t))"
  by (simp add: detect_unfold stripe_signal_def paddle_signal_def selected_def paddle_dated_def
      paddle_dated_event_def normalizePaddleLoose_def js_or_truthy js_or_falsy demo_host_sel
      ascii_upper_def double_eval)

lemma paddle_dated_basic: "basic_validation h (paddle_dated t) = Inr ()"
  by (simp add: basic_validation_def centsKeys_def paddle_dated_def)

lemma paddle_dated_deep: "validate_deep (paddle_dated_event t) = Inr ()"
  by (simp add: paddle_dated_event_def validate_deep_def MAX_CENTS_def js_gt_def)

lemma paddle_dated_time: "event_time (paddle_dated_event t) = t"
  by (simp add: paddle_dated_event_def)

lemma paddle_dated_stages:
  "truthy t \<Longrightarrow>
   fetch_validate demo_host (paddle_dated t) =
     (case time_sanity demo_host (paddle_dated_event t) of
        Inl r \<Rightarrow> Inl r
      | Inr u \<Rightarrow>
          (case bindE (new_date demo_host t) (toISOString demo_host) of
             Inl e \<Rightarrow> Inl (Uncaught e)
           | Inr s \<Rightarrow> Inr (paddle_dated_event t, s)))"
  by (simp add: fetch_validate_stages paddle_dated_basic paddle_dated_detect paddle_dated_deep
      paddle_dated_time js_or_truthy split: sum.splits)

lemma digits_str_epoch: "digits_str 1704585600000 = ''1704585600000''"
  by (simp add: digits_str.simps)

text \<open>
  C8 does not hold of the source.  The staleness check reads the event time
  through \<^verbatim>\<open>Date.parse\<close>, which converts its argument to a string first, and the
  string of a number of milliseconds is not a date: the check is skipped.  Line
  189 reads the same field through \<^verbatim>\<open>new Date\<close>, which takes a number as the
  instant it is.  So \<^verbatim>\<open>{"event_time": 1704585600000, "sale_gross": 10}\<close>, received
  on 2024-01-15 and dated 2024-01-07, eight days back, is accepted and handed to
  persistence with the time \<^verbatim>\<open>2024-01-07T00:00:00.000Z\<close>, while the same instant
  written as a string is answered 422 ``Event too old''.  An event six days old
  is accepted.  A time that is no date at all, \<^verbatim>\<open>"last tuesday"\<close>, passes the
  staleness check and then makes \<^verbatim>\<open>toISOString\<close> throw: the handler answers 500.
\<close>

theorem numeric_time_escapes_staleness:
  "time_clip (Fin 1704585600000) = Some (now_ms demo_host - 8 * day_ms)
   \<and> Date_parse demo_host (js_or (event_time (paddle_dated_event (JNum (Fin 1704585600000))))
                                (JStr [])) = Inr None
   \<and> time_sanity demo_host (paddle_dated_event (JNum (Fin 1704585600000))) = Inr ()
   \<and> fetch_validate demo_host paddle_epoch
       = Inr (paddle_dated_event (JNum (Fin 1704585600000)), ''2024-01-07T00:00:00.000Z'')
   \<and> Date_parse demo_host (JStr ''2024-01-07T00:00:00.000Z'')
       = Inr (Some (now_ms demo_host - 8 * day_ms))
   \<and> fetch_validate demo_host (paddle_dated (JStr ''2024-01-07T00:00:00.000Z''))
       = Inl (Reply 422 ''Event too old'')
   \<and> Date_parse demo_host (JStr ''2024-01-09T00:00:00.000Z'')
       = Inr (Some (now_ms demo_host - 6 * day_ms))
   \<and> fetch_validate demo_host (paddle_dated (JStr ''2024-01-09T00:00:00.000Z''))
       = Inr (paddle_dated_event (JStr ''2024-01-09T00:00:00.000Z''),
              ''2024-01-09T00:00:00.000Z'')
   \<and> time_sanity demo_host (paddle_dated_event (JStr ''last tuesday'')) = Inr ()
   \<and> fetch_validate demo_host (paddle_dated (JStr ''last tuesday''))
       = Inl (Uncaught RangeError)"
proof -
  have clip: "time_clip (Fin 1704585600000) = Some (now_ms demo_host - 8 * day_ms)"
    by (simp add: demo_host_sel day_ms_def)
  have pn: "Date_parse demo_host
      (js_or (event_time (paddle_dated_event (JNum (Fin 1704585600000)))) (JStr [])) = Inr None"
    by (simp add: paddle_dated_event_def js_or_def Date_parse_def demo_host_sel digits_str_epoch
        demo_instants_def)
  then have sn: "time_sanity demo_host (paddle_dated_event (JNum (Fin 1704585600000))) = Inr ()"
    by (simp add: time_sanity_cases)
  have acc: "fetch_validate demo_host paddle_epoch
       = Inr (paddle_dated_event (JNum (Fin 1704585600000)), ''2024-01-07T00:00:00.000Z'')"
    using sn
    by (simp add: paddle_epoch_def paddle_dated_stages)
      (simp add: toISOString_def demo_host_sel demo_instants_def)
  have p8: "Date_parse demo_host (JStr ''2024-01-07T00:00:00.000Z'')
       = Inr (Some (now_ms demo_host - 8 * day_ms))"
    by (simp add: Date_parse_def demo_host_sel demo_instants_def day_ms_def)
  have s8: "time_sanity demo_host (paddle_dated_event (JStr ''2024-01-07T00:00:00.000Z''))
       = Inl (Reply 422 ''Event too old'')"
    by (simp add: time_sanity_cases paddle_dated_event_def js_or_def Date_parse_def
        demo_host_sel demo_instants_def day_ms_def)
  have stale: "fetch_validate demo_host (paddle_dated (JStr ''2024-01-07T00:00:00.000Z''))
       = Inl (Reply 422 ''Event too old'')"
    using s8 by (simp add: paddle_dated_stages)
  have p6: "Date_parse demo_host (JStr ''2024-01-09T00:00:00.000Z'')
       = Inr (Some (now_ms demo_host - 6 * day_ms))"
    by (simp add: Date_parse_def demo_host_sel demo_instants_def day_ms_def)
  have s6: "time_sanity demo_host (paddle_dated_event (JStr ''2024-01-09T00:00:00.000Z''))
       = Inr ()"
    by (simp add: time_sanity_cases paddle_dated_event_def js_or_def Date_parse_def
        demo_host_sel demo_instants_def day_ms_def)
  have fresh: "fetch_validate demo_host (paddle_dated (JStr ''2024-01-09T00:00:00.000Z''))
       = Inr (paddle_dated_event (JStr ''2024-01-09T00:00:00.000Z''),
              ''2024-01-09T00:00:00.000Z'')"
    using s6
    by (simp add: paddle_dated_stages)
      (simp add: toISOString_def demo_host_sel demo_instants_def)
  have su: "time_sanity demo_host (paddle_dated_event (JStr ''last tuesday'')) = Inr ()"
    by (simp add: time_sanity_cases paddle_dated_event_def js_or_def Date_parse_def
        demo_host_sel demo_instants_def)
  have thrown: "fetch_validate demo_host (paddle_dated (JStr ''last tuesday''))
       = Inl (Uncaught RangeError)"
    using su
    by (simp add: paddle_dated_stages)
      (simp add: toISOString_def demo_host_sel demo_instants_def)
  from clip pn sn acc p8 stale p6 fresh su thrown show ?thesis
    by simp
qed

text \<open>
  C3 does not hold of the source: normalizers throw.  The stripe normalizer calls
  \<^verbatim>\<open>.toUpperCase()\<close> on whatever \<^verbatim>\<open>data.object.currency\<close> holds, so the well-formed
  payload \<^verbatim>\<open>{"object": "event", "data": {"object": {"currency": 5}}}\<close> raises a
  TypeError, on every host, and the handler answers 500; the custom normalizer
  reads \<^verbatim>\<open>i.name\<close> of every element of \<^verbatim>\<open>items\<close>, so
  \<^verbatim>\<open>{"total_cents": 100, "items": [null]}\<close> raises a TypeError as well.
\<close>

theorem normalizer_throws:
  "normalizeStripeLoose h stripe_numeric_currency = Inl TypeError
   \<and> detectAndNormalize h stripe_numeric_currency = Inl TypeError
   \<and> fetch_validate h stripe_numeric_currency = Inl (Uncaught TypeError)
   \<and> normalizeCustom h custom_null_item = Inl TypeError
   \<and> detectAndNormalize h custom_null_item = Inl TypeError"
proof -
  have s: "normalizeStripeLoose h stripe_numeric_currency = Inl TypeError"
    by (simp add: normalizeStripeLoose_def stripe_numeric_currency_def js_or_def)
  have c: "normalizeCustom h custom_null_item = Inl TypeError"
    by (cases "to_upper h ''USD''")
      (simp_all add: normalizeCustom_def custom_null_item_def custom_item_def get_strict_def
        js_or_def)
  have ds: "detectAndNormalize h stripe_numeric_currency = Inl TypeError"
    using s by (simp add: detect_unfold stripe_signal_def selected_def stripe_numeric_currency_def)
  have dc: "detectAndNormalize h custom_null_item = Inl TypeError"
    using c by (simp add: detect_unfold stripe_signal_def paddle_signal_def lemon_signal_def
        shopify_signal_def custom_signal_def selected_def custom_null_item_def)
  have "basic_validation h stripe_numeric_currency = Inr ()"
    by (simp add: basic_validation_def centsKeys_def stripe_numeric_currency_def)
  with ds have "fetch_validate h stripe_numeric_currency = Inl (Uncaught TypeError)"
    by (simp add: fetch_validate_stages)
  with s c ds dc show ?thesis by simp
qed

lemma custom_order_event:
  assumes "to_number demo_host (js_or q (JNum (Fin 1))) = Inr qn"
    and "to_number demo_host (js_or a (JNum (Fin 0))) = Inr an"
  shows "detectAndNormalize demo_host (custom_order q a) =
     Inr (Some
        \<lparr> provider = JStr ''custom'',
          provider_event_id = JStr ''000102030405060708090a0b0c0d0e0f'',
          provider_customer_id = JUndef, ev_type = JStr ''purchase'', currency = Some ''USD'',
          subtotal_cents = Some (Fin 0), discount_cents = Some (Fin 0), tax_cents = Some (Fin 0),
          total_cents = Fin 9900, items_count = 1, session_id = JUndef, visitor_id = JUndef,
          event_time = JStr ''2024-01-15T00:00:00.000Z'', data = JObj [],
          items = [\<lparr> name = JStr ''Pro'', quantity = qn, unit_amount_cents = an,
                     item_currency = Some ''USD'', is_bump = Some False \<rparr>] \<rparr>)"
proof -
  have "normalizeCustom demo_host (custom_order q a) =
     Inr \<lparr> provider = JStr ''custom'',
          provider_event_id = JStr ''000102030405060708090a0b0c0d0e0f'',
          provider_customer_id = JUndef, ev_type = JStr ''purchase'', currency = Some ''USD'',
          subtotal_cents = Some (Fin 0), discount_cents = Some (Fin 0), tax_cents = Some (Fin 0),
          total_cents = Fin 9900, items_count = 1, session_id = JUndef, visitor_id = JUndef,
          event_time = JStr ''2024-01-15T00:00:00.000Z'', data = JObj [],
          items = [\<lparr> name = JStr ''Pro'', quantity = qn, unit_amount_cents = an,
                     item_currency = Some ''USD'', is_bump = Some False \<rparr>] \<rparr>"
    using assms
    by (simp add: normalizeCustom_def custom_order_def custom_item_def get_strict_def
        js_or_truthy js_or_falsy demo_host_sel ascii_upper_def)
  then show ?thesis
    by (simp add: detect_unfold stripe_signal_def paddle_signal_def lemon_signal_def
        shopify_signal_def custom_signal_def selected_def custom_order_def)
qed

lemma custom_order_accepted:
  assumes "to_number demo_host (js_or q (JNum (Fin 1))) = Inr qn"
    and "to_number demo_host (js_or a (JNum (Fin 0))) = Inr an"
    and "validate_items [\<lparr> name = JStr ''Pro'', quantity = qn, unit_amount_cents = an,
                     item_currency = Some ''USD'', is_bump = Some False \<rparr>] = Inr ()"
  shows "accepted_items (fetch_validate demo_host (custom_order q a)) = Inr [(qn, an)]"
proof -
  have "basic_validation demo_host (custom_order q a) = Inr ()"
    by (simp add: basic_validation_def centsKeys_def custom_order_def MAX_ITEMS_def
        try_catch_def MAX_CENTS_def js_gt_def)
  then show ?thesis
    using assms(3)
    by (simp add: fetch_validate_stages custom_order_event [OF assms(1,2)] time_sanity_cases
        Date_parse_def validate_deep_def MAX_ITEMS_def MAX_CENTS_def js_gt_def js_or_def
        toISOString_def accepted_items_def demo_host_sel demo_instants_def day_ms_def)
qed

text \<open>
  C7 does not hold of the source: the item checks let NaN through, because
  \<^verbatim>\<open>Number.isInteger(x || 0)\<close> is true and \<^verbatim>\<open>x < 1\<close>, \<^verbatim>\<open>x > 1000\<close> and
  \<^verbatim>\<open>Math.abs(x) > MAX_CENTS\<close> are false when \<open>x\<close> is NaN.  A custom order whose item
  has quantity \<^verbatim>\<open>"abc"\<close> and \<^verbatim>\<open>unit_amount_cents\<close> \<^verbatim>\<open>"n/a"\<close> is accepted with both
  fields NaN.  A quantity of \<open>0\<close> is not rejected either: it is replaced by \<open>1\<close>
  before validation.  (A quantity of 1001 is rejected.)  On every host, an item
  whose two numbers are NaN passes the item checks.
\<close>

theorem nan_passes_validation:
  "accepted_items (fetch_validate demo_host (custom_order (JStr ''abc'') (JStr ''n/a'')))
     = Inr [(NaN, NaN)]
   \<and> accepted_items (fetch_validate demo_host (custom_order (JNum (Fin 0)) (JNum (Fin 9900))))
     = Inr [(Fin 1, Fin 9900)]
   \<and> fetch_validate demo_host (custom_order (JNum (Fin 1001)) (JNum (Fin 9900)))
     = Inl (Reply 400 ''Invalid quantity'')
   \<and> validate_items
        [\<lparr> name = n, quantity = NaN, unit_amount_cents = NaN, item_currency = cur,
            is_bump = b \<rparr>] = Inr ()"
proof -
  have d: "validate_items
        [\<lparr> name = n, quantity = NaN, unit_amount_cents = NaN, item_currency = cur,
            is_bump = b \<rparr>] = Inr ()"
    by (simp add: num_or_def MAX_CENTS_def js_gt_def)
  have a: "accepted_items (fetch_validate demo_host (custom_order (JStr ''abc'') (JStr ''n/a'')))
     = Inr [(NaN, NaN)]"
    by (rule custom_order_accepted)
      (simp_all add: js_or_def demo_host_sel dec_eval num_or_def MAX_CENTS_def js_gt_def)
  have b: "accepted_items
      (fetch_validate demo_host (custom_order (JNum (Fin 0)) (JNum (Fin 9900))))
     = Inr [(Fin 1, Fin 9900)]"
    by (rule custom_order_accepted)
      (simp_all add: js_or_def num_or_def MAX_CENTS_def js_gt_def)
  have "basic_validation demo_host (custom_order (JNum (Fin 1001)) (JNum (Fin 9900))) = Inr ()"
    by (simp add: basic_validation_def centsKeys_def custom_order_def MAX_ITEMS_def
        try_catch_def MAX_CENTS_def js_gt_def)
  then have c: "fetch_validate demo_host (custom_order (JNum (Fin 1001)) (JNum (Fin 9900)))
     = Inl (Reply 400 ''Invalid quantity'')"
    by (simp add: fetch_validate_stages
        custom_order_event [of "JNum (Fin 1001)" "Fin 1001" "JNum (Fin 9900)" "Fin 9900"]
        time_sanity_cases Date_parse_def validate_deep_def MAX_ITEMS_def MAX_CENTS_def
        js_gt_def js_or_def num_or_def demo_host_sel demo_instants_def day_ms_def)
  from a b c d show ?thesis by simp
qed

end
